theory Spec2Isabelle
  imports Complex_Main "HOL-Library.Word"
begin

section \<open>Strings\<close>

text \<open>
  Python strings are sequences of code points. The model uses \<open>string\<close> (a list of
  \<open>char\<close>), reading the character with code \<open>n\<close> as the code point \<open>n\<close>: the strings
  of the model are the Python strings over the code points below 256.
  \<open>isalnum\<close> and \<open>isspace\<close> are \<^verbatim>\<open>str.isalnum\<close> and \<^verbatim>\<open>str.isspace\<close> on that range.
\<close>

definition code :: "char \<Rightarrow> nat" where
  "code c = of_char c"

definition isalnum :: "char \<Rightarrow> bool" where
  "isalnum c = (let n = code c in
     (48 \<le> n \<and> n \<le> 57) \<or> (65 \<le> n \<and> n \<le> 90) \<or> (97 \<le> n \<and> n \<le> 122) \<or>
     n = 170 \<or> n = 178 \<or> n = 179 \<or> n = 181 \<or> n = 185 \<or> n = 186 \<or>
     (188 \<le> n \<and> n \<le> 190) \<or> (192 \<le> n \<and> n \<le> 214) \<or>
     (216 \<le> n \<and> n \<le> 246) \<or> (248 \<le> n \<and> n \<le> 255))"

definition isspace :: "char \<Rightarrow> bool" where
  "isspace c = (let n = code c in
     (9 \<le> n \<and> n \<le> 13) \<or> (28 \<le> n \<and> n \<le> 32) \<or> n = 133 \<or> n = 160)"

text \<open>\<^verbatim>\<open>s.strip()\<close>: whitespace removed at both ends.\<close>

definition strip :: "string \<Rightarrow> string" where
  "strip s = rev (dropWhile isspace (rev (dropWhile isspace s)))"

text \<open>
  \<^verbatim>\<open>s.split()\<close> with no separator: the maximal runs of non-whitespace characters.
  \<open>split_acc cur s\<close> scans \<open>s\<close> with the word read so far in \<open>cur\<close>.
\<close>

fun split_acc :: "string \<Rightarrow> string \<Rightarrow> string list" where
  "split_acc cur [] = (if cur = [] then [] else [cur])"
| "split_acc cur (c # cs) =
     (if isspace c then (if cur = [] then split_acc [] cs else cur # split_acc [] cs)
      else split_acc (cur @ [c]) cs)"

definition split :: "string \<Rightarrow> string list" where
  "split s = split_acc [] s"

text \<open>\<^verbatim>\<open>sep.join(words)\<close>.\<close>

fun join :: "string \<Rightarrow> string list \<Rightarrow> string" where
  "join sep [] = []"
| "join sep [w] = w"
| "join sep (w # v # ws) = w @ sep @ join sep (v # ws)"

section \<open>sanitize\_filename\<close>

text \<open>
  \<^verbatim>\<open>
  def sanitize_filename(name: str) -> str:
      cleaned = "".join(ch for ch in name if ch.isalnum() or ch in ("_", "-", " "))
      return "_".join(cleaned.strip().split())
  \<close>
\<close>

definition keep_char :: "char \<Rightarrow> bool" where
  "keep_char ch = (isalnum ch \<or> ch = CHR ''_'' \<or> ch = CHR ''-'' \<or> ch = CHR '' '')"

definition sanitize_filename :: "string \<Rightarrow> string" where
  "sanitize_filename name =
     (let cleaned = filter keep_char name in join ''_'' (split (strip cleaned)))"


section \<open>Errors and dynamically typed values\<close>

text \<open>
  A Python exception is a value of \<open>error\<close>; a function that can raise returns
  \<open>error + 'a\<close>, with \<open>Inl\<close> for the exception. The string is the message, where
  the source fixes one.
\<close>

datatype error =
    ValueError string
  | KeyError string
  | ZeroDivisionError
  | UnidentifiedImageError string
  | FormatError string

definition bind_err :: "error + 'a \<Rightarrow> ('a \<Rightarrow> error + 'b) \<Rightarrow> error + 'b" where
  "bind_err m f = (case m of Inl e \<Rightarrow> Inl e | Inr x \<Rightarrow> f x)"

text \<open>A value read from a YAML document, as far as the program tells values apart.\<close>

datatype yaml = VStr string | VInt int | VNone | VList "yaml list"

section \<open>hex\_to\_rgb\<close>

text \<open>
  \<^verbatim>\<open>int(s, 16)\<close> on a string: surrounding whitespace is skipped, then an optional
  sign, an optional \<^verbatim>\<open>0x\<close> prefix, and hexadecimal digits with single underscores
  between them. Anything else is a \<^verbatim>\<open>ValueError\<close>.
\<close>

definition hexval :: "char \<Rightarrow> int option" where
  "hexval c = (let n = int (code c) in
     if 48 \<le> n \<and> n \<le> 57 then Some (n - 48)
     else if 97 \<le> n \<and> n \<le> 102 then Some (n - 87)
     else if 65 \<le> n \<and> n \<le> 70 then Some (n - 55)
     else None)"

definition int_space :: "char \<Rightarrow> bool" where
  "int_space c = (let n = code c in (9 \<le> n \<and> n \<le> 13) \<or> n = 32 \<or> n = 133 \<or> n = 160)"

fun digits16 :: "int \<Rightarrow> bool \<Rightarrow> string \<Rightarrow> int option" where
  "digits16 acc prev [] = (if prev then Some acc else None)"
| "digits16 acc prev (c # cs) =
     (if c = CHR ''_'' then (if prev then digits16 acc False cs else None)
      else case hexval c of None \<Rightarrow> None | Some d \<Rightarrow> digits16 (16 * acc + d) True cs)"

definition drop_sign :: "string \<Rightarrow> bool \<times> string" where
  "drop_sign t = (case t of
       c # cs \<Rightarrow> if c = CHR ''+'' then (False, cs) else if c = CHR ''-'' then (True, cs) else (False, t)
     | [] \<Rightarrow> (False, t))"

definition drop_prefix16 :: "string \<Rightarrow> string" where
  "drop_prefix16 t = (case t of
       z # x # cs \<Rightarrow>
         if z = CHR ''0'' \<and> (x = CHR ''x'' \<or> x = CHR ''X'')
         then (case cs of u # us \<Rightarrow> if u = CHR ''_'' then us else cs | [] \<Rightarrow> cs)
         else t
     | _ \<Rightarrow> t)"

definition invalid_literal :: error where
  "invalid_literal = ValueError ''invalid literal for int() with base 16''"

definition py_int16 :: "string \<Rightarrow> error + int" where
  "py_int16 s =
     (let (neg, t) = drop_sign (dropWhile int_space s);
          body = rev (dropWhile int_space (rev (drop_prefix16 t)))
      in case digits16 0 False body of
           None \<Rightarrow> Inl invalid_literal
         | Some v \<Rightarrow> Inr (if neg then - v else v))"

text \<open>
  \<^verbatim>\<open>
  def hex_to_rgb(color: str) -> tuple:
      if not isinstance(color, str):
          return (245, 246, 250)
      color = color.strip()
      if not color.startswith("#"):
          return (245, 246, 250)
      if len(color) == 4:  # #abc
          r, g, b = (int(color[i] * 2, 16) for i in range(1, 4))
      elif len(color) == 7:  # #aabbcc
          r, g, b = (int(color[i : i + 2], 16) for i in (1, 3, 5))
      else:
          return (245, 246, 250)
      return (r, g, b)
  \<close>
\<close>

definition default_rgb :: "int \<times> int \<times> int" where
  "default_rgb = (245, 246, 250)"

definition hex_to_rgb :: "yaml \<Rightarrow> error + (int \<times> int \<times> int)" where
  "hex_to_rgb color = (case color of
       VStr s \<Rightarrow>
         (let c = strip s in
          if take 1 c \<noteq> ''#'' then Inr default_rgb
          else if length c = 4 then
            bind_err (py_int16 [c ! 1, c ! 1]) (\<lambda>r.
            bind_err (py_int16 [c ! 2, c ! 2]) (\<lambda>g.
            bind_err (py_int16 [c ! 3, c ! 3]) (\<lambda>b. Inr (r, g, b))))
          else if length c = 7 then
            bind_err (py_int16 (take 2 (drop 1 c))) (\<lambda>r.
            bind_err (py_int16 (take 2 (drop 3 c))) (\<lambda>g.
            bind_err (py_int16 (take 2 (drop 5 c))) (\<lambda>b. Inr (r, g, b))))
          else Inr default_rgb)
     | _ \<Rightarrow> Inr default_rgb)"

section \<open>Floating point\<close>

text \<open>
  A Python \<^verbatim>\<open>float\<close> is an IEEE 754 binary64 number, and every finite one is a
  rational. \<open>fl q\<close> is the binary64 value nearest to the rational \<open>q\<close>, ties to even:
  the correctly rounded result that Python's arithmetic returns for an exact result \<open>q\<close>.
  The exponent is not bounded in the model, so \<open>fl\<close> is binary64 rounding for
  results of magnitude from \<open>2^-1022\<close> up to \<open>2^1024\<close> (no overflow, no subnormals).
\<close>

fun bitlen :: "nat \<Rightarrow> nat" where
  "bitlen n = (if n = 0 then 0 else Suc (bitlen (n div 2)))"

declare bitlen.simps [simp del]

definition pow2 :: "int \<Rightarrow> rat" where
  "pow2 e = (if 0 \<le> e then 2 ^ nat e else 1 / 2 ^ nat (- e))"

text \<open>\<open>ilog2 q\<close> is \<open>\<lfloor>log\<^sub>2 q\<rfloor>\<close> for a positive rational \<open>q\<close>.\<close>

definition ilog2 :: "rat \<Rightarrow> int" where
  "ilog2 q = (if 1 \<le> q then int (bitlen (nat \<lfloor>q\<rfloor>)) - 1
              else - int (bitlen (nat (\<lceil>1 / q\<rceil> - 1))))"

text \<open>Rounding to the nearest integer, ties to even: also Python's \<^verbatim>\<open>round(x)\<close>.\<close>

definition rne :: "rat \<Rightarrow> int" where
  "rne x = (let f = \<lfloor>x\<rfloor>; r = x - of_int f in
     if r < 1 / 2 then f else if 1 / 2 < r then f + 1 else if even f then f else f + 1)"

definition fl :: "rat \<Rightarrow> rat" where
  "fl q = (if q = 0 then 0
           else let e = ilog2 \<bar>q\<bar>; m = rne (\<bar>q\<bar> * pow2 (52 - e))
                in sgn q * of_int m * pow2 (e - 52))"

text \<open>\<^verbatim>\<open>a / b\<close> on integers, \<^verbatim>\<open>x / y\<close> and \<^verbatim>\<open>n * x\<close> on floats, \<^verbatim>\<open>int(x)\<close>.\<close>

definition int_truediv :: "int \<Rightarrow> int \<Rightarrow> error + rat" where
  "int_truediv a b = (if b = 0 then Inl ZeroDivisionError else Inr (fl (of_int a / of_int b)))"

definition float_div :: "rat \<Rightarrow> rat \<Rightarrow> error + rat" where
  "float_div x y = (if y = 0 then Inl ZeroDivisionError else Inr (fl (x / y)))"

definition float_mul :: "rat \<Rightarrow> rat \<Rightarrow> rat" where
  "float_mul x y = fl (x * y)"

definition float_of_int :: "int \<Rightarrow> rat" where
  "float_of_int n = fl (of_int n)"

definition py_int :: "rat \<Rightarrow> int" where
  "py_int x = (if 0 \<le> x then \<lfloor>x\<rfloor> else \<lceil>x\<rceil>)"

section \<open>fit\_image\<close>

text \<open>
  An image is modelled by its size and the name of the file it was opened from;
  pixel values are PIL's business.
  \<^verbatim>\<open>
  def fit_image(img: Image.Image, width: int, height: int) -> Image.Image:
      # Resize while preserving aspect ratio, then center crop/pad to box.
      img_ratio = img.width / img.height
      target_ratio = width / height

      if img_ratio > target_ratio:
          new_height = height
          new_width = int(height * img_ratio)
      else:
          new_width = width
          new_height = int(width / img_ratio)

      img_resized = img.resize((new_width, new_height), Image.Resampling.LANCZOS)
      left = (new_width - width) // 2
      top = (new_height - height) // 2
      box = (left, top, left + width, top + height)
      return img_resized.crop(box)
  \<close>
  The result records the size given to \<^verbatim>\<open>resize\<close>, the crop box and the size of the
  cropped image. PIL's \<^verbatim>\<open>resize\<close> raises \<^verbatim>\<open>ValueError\<close> on a size below 1, and
  \<^verbatim>\<open>crop\<close> on a box whose right or lower edge is before its left or upper edge;
  a crop box that reaches outside the resized image is filled with blank pixels there.
\<close>

record image =
  image_width :: int
  image_height :: int
  filename :: string

record fitted =
  new_width :: int
  new_height :: int
  crop_left :: int
  crop_top :: int
  out :: image

definition pil_resize :: "image \<Rightarrow> int \<Rightarrow> int \<Rightarrow> error + image" where
  "pil_resize img w h =
     (if (image_width img, image_height img) = (w, h) then Inr img
      else if w < 1 \<or> h < 1 then Inl (ValueError ''height and width must be > 0'')
      else Inr (img\<lparr>image_width := w, image_height := h\<rparr>))"

definition pil_crop :: "image \<Rightarrow> int \<Rightarrow> int \<Rightarrow> int \<Rightarrow> int \<Rightarrow> error + image" where
  "pil_crop img l t r b =
     (if r < l then Inl (ValueError ''Coordinate 'right' is less than 'left' '')
      else if b < t then Inl (ValueError ''Coordinate 'lower' is less than 'upper' '')
      else Inr (img\<lparr>image_width := r - l, image_height := b - t\<rparr>))"

definition fit_image :: "image \<Rightarrow> int \<Rightarrow> int \<Rightarrow> error + fitted" where
  "fit_image img width height =
     bind_err (int_truediv (image_width img) (image_height img)) (\<lambda>img_ratio.
     bind_err (int_truediv width height) (\<lambda>target_ratio.
     bind_err (if target_ratio < img_ratio
               then Inr (py_int (float_mul (float_of_int height) img_ratio), height)
               else bind_err (float_div (float_of_int width) img_ratio) (\<lambda>q. Inr (width, py_int q)))
       (\<lambda>(nw, nh).
     bind_err (pil_resize img nw nh) (\<lambda>img_resized.
     let l = (nw - width) div 2; t = (nh - height) div 2 in
     bind_err (pil_crop img_resized l t (l + width) (t + height)) (\<lambda>res.
     Inr \<lparr>new_width = nw, new_height = nh, crop_left = l, crop_top = t, out = res\<rparr>)))))"

text \<open>The resized image covers the crop box: no pixel of the result is blank.\<close>

definition covers :: "fitted \<Rightarrow> bool" where
  "covers f = (0 \<le> crop_left f \<and> 0 \<le> crop_top f
     \<and> crop_left f + image_width (out f) \<le> new_width f
     \<and> crop_top f + image_height (out f) \<le> new_height f)"

section \<open>The compositing mask of paste\_photo\<close>

text \<open>
  A mask is a single-channel 8-bit image: 0 is transparent, 255 opaque. The pixel
  function is read inside the rectangle of the mask's size.
\<close>

record mask =
  mask_width :: int
  mask_height :: int
  px :: "int \<Rightarrow> int \<Rightarrow> 8 word"

definition inside :: "mask \<Rightarrow> int \<Rightarrow> int \<Rightarrow> bool" where
  "inside m x y = (0 \<le> x \<and> x < mask_width m \<and> 0 \<le> y \<and> y < mask_height m)"

text \<open>
  \<^verbatim>\<open>ImageFilter.MinFilter(3)\<close>: the minimum over the 3 x 3 window around a pixel, the
  image being extended by repeating its border pixels.
\<close>

definition clamp :: "int \<Rightarrow> int \<Rightarrow> int" where
  "clamp n v = max 0 (min (n - 1) v)"

definition window3 :: "(int \<times> int) list" where
  "window3 = [(0, 0), (- 1, - 1), (0, - 1), (1, - 1), (- 1, 0), (1, 0), (- 1, 1), (0, 1), (1, 1)]"

definition min_filter3 :: "mask \<Rightarrow> mask" where
  "min_filter3 m = m\<lparr>px := \<lambda>x y.
     foldr min (map (\<lambda>(dx, dy). px m (clamp (mask_width m) (x + dx)) (clamp (mask_height m) (y + dy)))
                window3) 255\<rparr>"

text \<open>\<^verbatim>\<open>ImageChops.multiply(a, b)\<close>: pixel by pixel \<open>a * b / 255\<close>, in integers.\<close>

definition multiply :: "mask \<Rightarrow> mask \<Rightarrow> mask" where
  "multiply a b = \<lparr>mask_width = min (mask_width a) (mask_width b),
                    mask_height = min (mask_height a) (mask_height b),
                    px = \<lambda>x y. of_nat (unat (px a x y) * unat (px b x y) div 255)\<rparr>"

text \<open>
  \<^verbatim>\<open>
  def rounded_mask(width: int, height: int, radius: int) -> Image.Image:
      mask = Image.new("L", (width, height), 0)
      draw = ImageDraw.Draw(mask)
      draw.rounded_rectangle((0, 0, width, height), radius=radius, fill=255)
      return mask
  \<close>
  Which pixels PIL's \<^verbatim>\<open>rounded_rectangle\<close> paints is a parameter \<open>rr\<close> of the model, and
  so is \<^verbatim>\<open>ImageFilter.GaussianBlur\<close>, the parameter \<open>blur\<close> below.
\<close>

definition rounded_mask :: "(int \<Rightarrow> int \<Rightarrow> int \<Rightarrow> int \<Rightarrow> int \<Rightarrow> bool) \<Rightarrow> int \<Rightarrow> int \<Rightarrow> int \<Rightarrow> mask" where
  "rounded_mask rr width height radius =
     \<lparr>mask_width = width, mask_height = height,
      px = \<lambda>x y. if rr width height radius x y then 255 else 0\<rparr>"

text \<open>
  The mask that \<^verbatim>\<open>paste_photo\<close> builds, from the alpha channel of the fitted and scaled
  photo:
  \<^verbatim>\<open>
      photo_alpha = img.getchannel("A")
      base_mask = photo_alpha

      if remove_bg and bg_color:
          matte = Image.new("RGBA", img.size, bg_color + (255,))
          img = Image.composite(img, matte, photo_alpha)
          base_mask = photo_alpha.filter(ImageFilter.MinFilter(3))

      if box.border_radius > 0:
          radius_scaled = max(1, int(box.border_radius * scale))
          corner_mask = rounded_mask(img.width, img.height, radius_scaled)
          base_mask = ImageChops.multiply(base_mask, corner_mask)

      # Feather edges slightly only when background removal is applied
      if remove_bg:
          base_mask = base_mask.filter(ImageFilter.GaussianBlur(radius=1.5))
  \<close>
  \<open>combined_mask\<close> is \<^verbatim>\<open>base_mask\<close> before the last statement, \<open>paste_photo_mask\<close> after it.
\<close>

definition radius_scaled :: "int \<Rightarrow> rat \<Rightarrow> int" where
  "radius_scaled radius scale =
     max 1 (py_int (float_mul (float_of_int radius) scale))"

definition corner_mask :: "(int \<Rightarrow> int \<Rightarrow> int \<Rightarrow> int \<Rightarrow> int \<Rightarrow> bool) \<Rightarrow> mask \<Rightarrow> int \<Rightarrow> rat \<Rightarrow> mask" where
  "corner_mask rr photo_alpha radius scale =
     rounded_mask rr (mask_width photo_alpha) (mask_height photo_alpha)
       (radius_scaled radius scale)"

definition combined_mask ::
  "(int \<Rightarrow> int \<Rightarrow> int \<Rightarrow> int \<Rightarrow> int \<Rightarrow> bool) \<Rightarrow> mask \<Rightarrow> bool \<Rightarrow> (int \<times> int \<times> int) option \<Rightarrow> int \<Rightarrow> rat \<Rightarrow> mask" where
  "combined_mask rr photo_alpha remove_bg bg_color radius scale =
     (let base_mask = (if remove_bg \<and> bg_color \<noteq> None then min_filter3 photo_alpha else photo_alpha)
      in if 0 < radius
         then multiply base_mask (corner_mask rr photo_alpha radius scale)
         else base_mask)"

definition paste_photo_mask ::
  "(int \<Rightarrow> int \<Rightarrow> int \<Rightarrow> int \<Rightarrow> int \<Rightarrow> bool) \<Rightarrow> (rat \<Rightarrow> mask \<Rightarrow> mask) \<Rightarrow>
     mask \<Rightarrow> bool \<Rightarrow> (int \<times> int \<times> int) option \<Rightarrow> int \<Rightarrow> rat \<Rightarrow> mask" where
  "paste_photo_mask rr blur photo_alpha remove_bg bg_color radius scale =
     (let base_mask = combined_mask rr photo_alpha remove_bg bg_color radius scale
      in if remove_bg then blur (3 / 2) base_mask else base_mask)"

text \<open>
  A sample blur, to instantiate the parameter: the mean of a pixel and its two
  horizontal neighbours.
\<close>

definition box_blur3 :: "rat \<Rightarrow> mask \<Rightarrow> mask" where
  "box_blur3 radius m = m\<lparr>px := \<lambda>x y.
     of_nat ((unat (px m (clamp (mask_width m) (x - 1)) y) + unat (px m x y)
              + unat (px m (clamp (mask_width m) (x + 1)) y)) div 3)\<rparr>"

text \<open>A mask of 2 x 1 pixels with a hard edge: transparent at column 0, opaque at column 1.\<close>

definition edge_alpha :: mask where
  "edge_alpha = \<lparr>mask_width = 2, mask_height = 1, px = \<lambda>x y. if x = 0 then 0 else 255\<rparr>"

definition no_corner :: "int \<Rightarrow> int \<Rightarrow> int \<Rightarrow> int \<Rightarrow> int \<Rightarrow> bool" where
  "no_corner width height radius x y = True"

section \<open>Templates, jobs and the world\<close>

text \<open>
  The typed records of the source:
  \<^verbatim>\<open>
  @dataclass
  class Overlay:
      path: Path
      x: int
      y: int
      width: Optional[int] = None
      height: Optional[int] = None
      placement: str = "after_photos"  # before_photos, after_photos, top

  @dataclass
  class PhotoBox:
      x: int
      y: int
      width: int
      height: int
      border_radius: int = 0

  @dataclass
  class TextBlock:
      text: str
      x: int
      y: int
      font_path: Optional[str] = None
      size: int = 48
      color: str = DEFAULT_TEXT_COLOR
      align: str = "left"
      max_width: Optional[int] = None
  \<close>
\<close>

definition DEFAULT_BG_COLOR :: string where
  "DEFAULT_BG_COLOR = ''#f5f6fa''"

definition DEFAULT_TEXT_COLOR :: string where
  "DEFAULT_TEXT_COLOR = ''#1f2d3d''"

record overlay =
  ov_path :: string
  ov_x :: int
  ov_y :: int
  ov_width :: "int option"
  ov_height :: "int option"
  placement :: string

record photo_box =
  box_x :: int
  box_y :: int
  box_width :: int
  box_height :: int
  border_radius :: int

record text_block =
  tb_text :: string
  tb_x :: int
  tb_y :: int
  font_path :: "string option"
  tb_size :: int
  tb_color :: string
  tb_align :: string
  max_width :: "int option"

text \<open>
  The template configuration as \<^verbatim>\<open>yaml.safe_load\<close> returns it: dictionaries, where a
  key may be missing (\<open>None\<close>). Numbers are integers and texts are strings.

  The dictionaries of the text blocks are the only objects that \<^verbatim>\<open>process_job\<close>
  assigns to. They live in a heap and the template refers to them by reference, so
  that copying a template and sharing one are different things in the model.
\<close>

record raw_box =
  rb_x :: "int option"
  rb_y :: "int option"
  rb_width :: "int option"
  rb_height :: "int option"
  rb_border_radius :: "int option"

record raw_text_block =
  rt_text :: "string option"
  rt_x :: "int option"
  rt_y :: "int option"
  rt_font_path :: "string option"
  rt_size :: "int option"
  rt_color :: "string option"
  rt_align :: "string option"
  rt_max_width :: "int option"

record raw_overlay =
  ro_path :: "string option"
  ro_x :: "int option"
  ro_y :: "int option"
  ro_width :: "int option"
  ro_height :: "int option"
  ro_placement :: "string option"

record canvas_cfg =
  cv_width :: "int option"
  cv_height :: "int option"
  background_color :: "yaml option"
  template_path :: "string option"

type_synonym ref = nat

record template_cfg =
  canvas_cfg :: "canvas_cfg option"
  photo_boxes :: "raw_box list"
  text_blocks :: "(string \<times> ref) list"
  overlays :: "raw_overlay list"

record heap =
  cells :: "ref \<Rightarrow> raw_text_block"
  next_ref :: ref

text \<open>
  A job. \<^verbatim>\<open>photos\<close> is missing, one string or a list of strings; the other keys are
  strings or missing.
\<close>

datatype photos_field = NoPhotos | OnePhoto string | PhotoList "string list"

record job =
  photos :: photos_field
  recipient_name :: "string option"
  giver_name :: "string option"
  message :: "string option"
  project_name :: "string option"
  output_name :: "string option"

text \<open>
  The canvas is the surface it was created with and the list of the paint calls made
  on it, in the order of the calls: a later call paints over an earlier one.
\<close>

datatype font = TrueType string int | DefaultFont

record photo_paste =
  pp_source :: image
  pp_auto_color :: bool
  pp_cutout :: bool
  pp_fit :: fitted
  pp_width :: int
  pp_height :: int
  pp_matte :: "(int \<times> int \<times> int) option"
  pp_corner_radius :: "int option"
  pp_feathered :: bool
  pp_offset_x :: int
  pp_offset_y :: int

datatype paint =
    AlphaComposite image int int
  | PastePhoto photo_paste
  | MultilineText int int string string font string int

datatype surface = Solid yaml | TemplateImage image

record canvas =
  canvas_width :: int
  canvas_height :: int
  surface :: surface
  painted :: "paint list"

text \<open>
  The world a call runs in: the files, the lines printed so far, the heap, the canvas
  of the job being processed (the variable \<^verbatim>\<open>base\<close> of \<^verbatim>\<open>process_job\<close>) and the
  calls of \<^verbatim>\<open>save\<close> made so far.
\<close>

datatype file_content = ImageFile int int | OtherFile

record world =
  files :: "string \<Rightarrow> file_content option"
  log :: "string list"
  heap :: heap
  base :: canvas
  saves :: "(string \<times> canvas) list"

text \<open>
  What the libraries do on data that the model does not interpret: whether
  \<^verbatim>\<open>str.format\<close>, \<^verbatim>\<open>Image.new\<close>, decoding an image, \<^verbatim>\<open>rembg\<close>, loading a font, a
  paint call or \<^verbatim>\<open>save\<close> raise, and the text that \<^verbatim>\<open>str.format\<close> returns. Every
  statement below holds for every such behaviour.
\<close>

record lib =
  str_format :: "string \<Rightarrow> (string \<times> string) list \<Rightarrow> error + string"
  image_new_error :: "int \<Rightarrow> int \<Rightarrow> yaml \<Rightarrow> error option"
  load_error :: "image \<Rightarrow> error option"
  rembg_available :: bool
  rembg_error :: "image \<Rightarrow> string option"
  truetype_ok :: "string \<Rightarrow> int \<Rightarrow> bool"
  paint_error :: "canvas \<Rightarrow> paint \<Rightarrow> error option"
  save_error :: "string \<Rightarrow> canvas \<Rightarrow> error option"

text \<open>
  A computation in the world returns a value or raises, and leaves a world:
  what was printed or written before an exception stays.
\<close>

type_synonym 'a io = "world \<Rightarrow> (error + 'a) \<times> world"

definition return_io :: "'a \<Rightarrow> 'a io" where
  "return_io x w = (Inr x, w)"

definition raise_io :: "error \<Rightarrow> 'a io" where
  "raise_io e w = (Inl e, w)"

definition bind_io :: "'a io \<Rightarrow> ('a \<Rightarrow> 'b io) \<Rightarrow> 'b io" where
  "bind_io m f w = (case m w of (Inl e, w') \<Rightarrow> (Inl e, w') | (Inr x, w') \<Rightarrow> f x w')"

definition lift_io :: "error + 'a \<Rightarrow> 'a io" where
  "lift_io r w = (r, w)"

definition print_line :: "string \<Rightarrow> unit io" where
  "print_line s w = (Inr (), w\<lparr>log := log w @ [s]\<rparr>)"

definition path_exists :: "string \<Rightarrow> bool io" where
  "path_exists p w = (Inr (files w p \<noteq> None), w)"

text \<open>\<^verbatim>\<open>Image.open(path)\<close> on a path that exists.\<close>

definition image_open :: "string \<Rightarrow> image io" where
  "image_open p w = (case files w p of
       Some (ImageFile iw ih) \<Rightarrow> (Inr \<lparr>image_width = iw, image_height = ih, filename = p\<rparr>, w)
     | _ \<Rightarrow> (Inl (UnidentifiedImageError p), w))"

text \<open>\<^verbatim>\<open>img.convert("RGBA")\<close> decodes the pixels of an opened file.\<close>

definition image_load :: "lib \<Rightarrow> image \<Rightarrow> unit io" where
  "image_load lib img = (case load_error lib img of Some e \<Rightarrow> raise_io e | None \<Rightarrow> return_io ())"

text \<open>A paint call on the canvas of the job.\<close>

definition paint_on_base :: "lib \<Rightarrow> paint \<Rightarrow> unit io" where
  "paint_on_base lib p w = (case paint_error lib (base w) p of
       Some e \<Rightarrow> (Inl e, w)
     | None \<Rightarrow> (Inr (), w\<lparr>base := (base w)\<lparr>painted := painted (base w) @ [p]\<rparr>\<rparr>))"

fun for_each :: "('a \<Rightarrow> unit io) \<Rightarrow> 'a list \<Rightarrow> unit io" where
  "for_each f [] = return_io ()"
| "for_each f (x # xs) = bind_io (f x) (\<lambda>_. for_each f xs)"

text \<open>\<^verbatim>\<open>str(n)\<close> for a natural number.\<close>

fun str_nat :: "nat \<Rightarrow> string" where
  "str_nat n = (if n < 10 then [char_of (48 + n)] else str_nat (n div 10) @ [char_of (48 + n mod 10)])"

declare str_nat.simps [simp del]

section \<open>Parsing the template\<close>

text \<open>
  \<^verbatim>\<open>d[key]\<close> raises \<^verbatim>\<open>KeyError\<close> on a missing key; \<^verbatim>\<open>d.get(key, default)\<close> does not.
\<close>

definition required :: "string \<Rightarrow> 'a option \<Rightarrow> error + 'a" where
  "required key v = (case v of None \<Rightarrow> Inl (KeyError key) | Some x \<Rightarrow> Inr x)"

definition get_default :: "'a \<Rightarrow> 'a option \<Rightarrow> 'a" where
  "get_default d v = (case v of None \<Rightarrow> d | Some x \<Rightarrow> x)"

fun map_err :: "('a \<Rightarrow> error + 'b) \<Rightarrow> 'a list \<Rightarrow> error + 'b list" where
  "map_err f [] = Inr []"
| "map_err f (x # xs) = bind_err (f x) (\<lambda>y. bind_err (map_err f xs) (\<lambda>ys. Inr (y # ys)))"

text \<open>
  \<^verbatim>\<open>
  def parse_photo_boxes(raw_boxes: Sequence[dict]) -> List[PhotoBox]:
      boxes: List[PhotoBox] = []
      for box in raw_boxes:
          boxes.append(
              PhotoBox(
                  x=int(box["x"]),
                  y=int(box["y"]),
                  width=int(box["width"]),
                  height=int(box["height"]),
                  border_radius=int(box.get("border_radius", 0)),
              )
          )
      return boxes
  \<close>
\<close>

definition parse_photo_box :: "raw_box \<Rightarrow> error + photo_box" where
  "parse_photo_box rb =
     bind_err (required ''x'' (rb_x rb)) (\<lambda>x.
     bind_err (required ''y'' (rb_y rb)) (\<lambda>y.
     bind_err (required ''width'' (rb_width rb)) (\<lambda>wd.
     bind_err (required ''height'' (rb_height rb)) (\<lambda>ht.
     Inr \<lparr>box_x = x, box_y = y, box_width = wd, box_height = ht,
          border_radius = get_default 0 (rb_border_radius rb)\<rparr>))))"

definition parse_photo_boxes :: "raw_box list \<Rightarrow> error + photo_box list" where
  "parse_photo_boxes raw_boxes = map_err parse_photo_box raw_boxes"

text \<open>
  \<^verbatim>\<open>
  def parse_text_blocks(raw_blocks: dict) -> dict:
      parsed = {}
      for key, value in raw_blocks.items():
          parsed[key] = TextBlock(
              text=value["text"],
              x=int(value["x"]),
              y=int(value["y"]),
              font_path=value.get("font_path"),
              size=int(value.get("size", 48)),
              color=value.get("color", DEFAULT_TEXT_COLOR),
              align=value.get("align", "left"),
              max_width=value.get("max_width"),
          )
      return parsed
  \<close>
  The dictionaries of the blocks are read from the heap.
\<close>

definition parse_text_block :: "raw_text_block \<Rightarrow> error + text_block" where
  "parse_text_block rt =
     bind_err (required ''text'' (rt_text rt)) (\<lambda>t.
     bind_err (required ''x'' (rt_x rt)) (\<lambda>x.
     bind_err (required ''y'' (rt_y rt)) (\<lambda>y.
     Inr \<lparr>tb_text = t, tb_x = x, tb_y = y, font_path = rt_font_path rt,
          tb_size = get_default 48 (rt_size rt),
          tb_color = get_default DEFAULT_TEXT_COLOR (rt_color rt),
          tb_align = get_default ''left'' (rt_align rt),
          max_width = rt_max_width rt\<rparr>)))"

definition parse_text_blocks :: "heap \<Rightarrow> (string \<times> ref) list \<Rightarrow> error + (string \<times> text_block) list" where
  "parse_text_blocks h raw_blocks =
     map_err (\<lambda>(key, r). bind_err (parse_text_block (cells h r)) (\<lambda>b. Inr (key, b))) raw_blocks"

text \<open>
  \<^verbatim>\<open>
  def parse_overlays(raw_overlays: Sequence[dict]) -> List[Overlay]:
      overlays: List[Overlay] = []
      for ov in raw_overlays:
          overlays.append(
              Overlay(
                  path=Path(ov["path"]),
                  x=int(ov["x"]),
                  y=int(ov["y"]),
                  width=ov.get("width"),
                  height=ov.get("height"),
                  placement=ov.get("placement", "after_photos"),
              )
          )
      return overlays
  \<close>
\<close>

definition parse_overlay :: "raw_overlay \<Rightarrow> error + overlay" where
  "parse_overlay ro =
     bind_err (required ''path'' (ro_path ro)) (\<lambda>p.
     bind_err (required ''x'' (ro_x ro)) (\<lambda>x.
     bind_err (required ''y'' (ro_y ro)) (\<lambda>y.
     Inr \<lparr>ov_path = p, ov_x = x, ov_y = y, ov_width = ro_width ro, ov_height = ro_height ro,
          placement = get_default ''after_photos'' (ro_placement ro)\<rparr>)))"

definition parse_overlays :: "raw_overlay list \<Rightarrow> error + overlay list" where
  "parse_overlays raw_overlays = map_err parse_overlay raw_overlays"

section \<open>The canvas\<close>

text \<open>
  \<^verbatim>\<open>
  def create_base_canvas(canvas_cfg: dict) -> Image.Image:
      width = int(canvas_cfg.get("width", 1600))
      height = int(canvas_cfg.get("height", 900))
      bg_color = canvas_cfg.get("background_color", DEFAULT_BG_COLOR)
      base = Image.new("RGBA", (width, height), bg_color)

      template_path = canvas_cfg.get("template_path")
      if template_path:
          template_path = Path(template_path)
          if template_path.exists():
              template_img = Image.open(template_path).convert("RGBA")
              if template_img.size != base.size:
                  template_img = template_img.resize(base.size, Image.Resampling.LANCZOS)
              base = template_img
          else:
              print(f"Template image not found: {template_path}, using solid background.")
      return base
  \<close>
\<close>

definition image_new :: "lib \<Rightarrow> int \<Rightarrow> int \<Rightarrow> yaml \<Rightarrow> canvas io" where
  "image_new lib width height bg_color =
     (case image_new_error lib width height bg_color of
        Some e \<Rightarrow> raise_io e
      | None \<Rightarrow> return_io \<lparr>canvas_width = width, canvas_height = height,
                             surface = Solid bg_color, painted = []\<rparr>)"

definition create_base_canvas :: "lib \<Rightarrow> canvas_cfg \<Rightarrow> canvas io" where
  "create_base_canvas lib cc =
     (let width = get_default 1600 (cv_width cc);
          height = get_default 900 (cv_height cc);
          bg_color = get_default (VStr DEFAULT_BG_COLOR) (background_color cc)
      in bind_io (image_new lib width height bg_color) (\<lambda>solid.
         case template_path cc of
           None \<Rightarrow> return_io solid
         | Some tp \<Rightarrow>
             if tp = [] then return_io solid
             else bind_io (path_exists tp) (\<lambda>ex.
               if ex then
                 bind_io (image_open tp) (\<lambda>img.
                 bind_io (image_load lib img) (\<lambda>_.
                 bind_io (lift_io (pil_resize img width height)) (\<lambda>template_img.
                 return_io (solid\<lparr>surface := TemplateImage template_img\<rparr>))))
               else
                 bind_io (print_line (''Template image not found: '' @ tp @ '', using solid background.''))
                   (\<lambda>_. return_io solid))))"

definition set_base :: "canvas \<Rightarrow> unit io" where
  "set_base c w = (Inr (), w\<lparr>base := c\<rparr>)"

section \<open>Overlays, photos and text\<close>

text \<open>
  \<^verbatim>\<open>
  def paste_overlay(canvas: Image.Image, overlay: Overlay) -> None:
      img_path = overlay.path
      if not img_path.exists():
          print(f"Overlay not found: {img_path}")
          return

      img = Image.open(img_path).convert("RGBA")
      target_w = int(overlay.width or img.width)
      target_h = int(overlay.height or img.height)
      if img.size != (target_w, target_h):
          img = img.resize((target_w, target_h), Image.Resampling.LANCZOS)
      canvas.alpha_composite(img, dest=(overlay.x, overlay.y))
  \<close>
\<close>

definition or_else :: "int option \<Rightarrow> int \<Rightarrow> int" where
  "or_else v d = (case v of None \<Rightarrow> d | Some n \<Rightarrow> if n = 0 then d else n)"

definition paste_overlay :: "lib \<Rightarrow> overlay \<Rightarrow> unit io" where
  "paste_overlay lib ov =
     bind_io (path_exists (ov_path ov)) (\<lambda>ex.
       if \<not> ex then print_line (''Overlay not found: '' @ ov_path ov)
       else
         bind_io (image_open (ov_path ov)) (\<lambda>img.
         bind_io (image_load lib img) (\<lambda>_.
         let target_w = or_else (ov_width ov) (image_width img);
             target_h = or_else (ov_height ov) (image_height img)
         in bind_io (lift_io (pil_resize img target_w target_h)) (\<lambda>resized.
            paint_on_base lib (AlphaComposite resized (ov_x ov) (ov_y ov))))))"

text \<open>
  \<^verbatim>\<open>
  def paste_photo(canvas, photo, box, auto_color, remove_bg, bg_color=None, scale=PHOTO_SCALE):
      img = photo.convert("RGBA")
      if remove_bg and rembg_remove is not None:
          try:
              img = rembg_remove(img.convert("RGB")).convert("RGBA")
          except Exception as exc:  # pragma: no cover
              print(f"rembg failed ({exc}); using original image.")
      img = auto_color_correct(img, enabled=auto_color)
      img = fit_image(img, box.width, box.height)

      if scale > 0:
          new_w = max(1, int(img.width * scale))
          new_h = max(1, int(img.height * scale))
          img = img.resize((new_w, new_h), Image.Resampling.LANCZOS)
      else:
          new_w, new_h = img.width, img.height
      ...
      offset_x = box.x + (box.width - new_w) // 2
      offset_y = box.y + (box.height - new_h) // 2
      canvas.paste(img, (offset_x, offset_y), base_mask)
  \<close>
  The statements left out build the mask; they are \<open>paste_photo_mask\<close> above. The paint
  call records which of its steps apply.
\<close>

definition try_rembg :: "lib \<Rightarrow> image \<Rightarrow> bool \<Rightarrow> bool io" where
  "try_rembg lib img remove_bg =
     (if remove_bg \<and> rembg_available lib then
        (case rembg_error lib img of
           Some exc \<Rightarrow> bind_io (print_line (''rembg failed ('' @ exc @ ''); using original image.''))
                         (\<lambda>_. return_io False)
         | None \<Rightarrow> return_io True)
      else return_io False)"

definition scaled_dim :: "int \<Rightarrow> rat \<Rightarrow> int" where
  "scaled_dim n scale = max 1 (py_int (float_mul (float_of_int n) scale))"

definition paste_photo ::
  "lib \<Rightarrow> image \<Rightarrow> photo_box \<Rightarrow> bool \<Rightarrow> bool \<Rightarrow> (int \<times> int \<times> int) option \<Rightarrow> rat \<Rightarrow> unit io" where
  "paste_photo lib photo box autocolor remove_bg bg_color scale =
     bind_io (image_load lib photo) (\<lambda>_.
     bind_io (try_rembg lib photo remove_bg) (\<lambda>cut.
     bind_io (lift_io (fit_image photo (box_width box) (box_height box))) (\<lambda>f.
     let img = out f;
         new_w = (if 0 < scale then scaled_dim (image_width img) scale else image_width img);
         new_h = (if 0 < scale then scaled_dim (image_height img) scale else image_height img)
     in bind_io (lift_io (if 0 < scale then pil_resize img new_w new_h else Inr img)) (\<lambda>_.
        paint_on_base lib (PastePhoto
          \<lparr>pp_source = photo, pp_auto_color = autocolor, pp_cutout = cut, pp_fit = f,
           pp_width = new_w, pp_height = new_h,
           pp_matte = (if remove_bg then bg_color else None),
           pp_corner_radius = (if 0 < border_radius box
                               then Some (radius_scaled (border_radius box) scale) else None),
           pp_feathered = remove_bg,
           pp_offset_x = box_x box + (box_width box - new_w) div 2,
           pp_offset_y = box_y box + (box_height box - new_h) div 2\<rparr>)))))"

text \<open>
  \<^verbatim>\<open>
  def load_font(font_path: Optional[str], size: int) -> ImageFont.ImageFont:
      try:
          if font_path:
              return ImageFont.truetype(font_path, size=size)
      except Exception:
          print(f"Could not load font at {font_path}, using default.")
      return ImageFont.load_default()

  def draw_text(canvas, block, substitutions) -> None:
      draw = ImageDraw.Draw(canvas)
      text_value = block.text.format(**substitutions)
      font = load_font(block.font_path, block.size)
      lines = text_value.split("\\n")
      draw.multiline_text(
          (block.x, block.y),
          "\n".join(lines),
          fill=block.color,
          font=font,
          align=block.align,
          spacing=int(block.size * 0.4),
      )
  \<close>
\<close>

definition load_font :: "lib \<Rightarrow> string option \<Rightarrow> int \<Rightarrow> font io" where
  "load_font lib fp sz =
     (case fp of
        None \<Rightarrow> return_io DefaultFont
      | Some p \<Rightarrow>
          if p = [] then return_io DefaultFont
          else if truetype_ok lib p sz then return_io (TrueType p sz)
          else bind_io (print_line (''Could not load font at '' @ p @ '', using default.''))
                 (\<lambda>_. return_io DefaultFont))"

text \<open>Splitting at backslash-n and joining with newlines.\<close>

fun unescape_newlines :: "string \<Rightarrow> string" where
  "unescape_newlines (a # b # cs) =
     (if a = CHR 0x5C \<and> b = CHR ''n'' then CHR 0x0A # unescape_newlines cs
      else a # unescape_newlines (b # cs))"
| "unescape_newlines cs = cs"

definition draw_text :: "lib \<Rightarrow> text_block \<Rightarrow> (string \<times> string) list \<Rightarrow> unit io" where
  "draw_text lib block substitutions =
     bind_io (lift_io (str_format lib (tb_text block) substitutions)) (\<lambda>text_value.
     bind_io (load_font lib (font_path block) (tb_size block)) (\<lambda>fnt.
     paint_on_base lib (MultilineText (tb_x block) (tb_y block) (unescape_newlines text_value)
       (tb_color block) fnt (tb_align block)
       (py_int (float_mul (float_of_int (tb_size block)) (fl (4 / 10)))))))"

section \<open>process\_job\<close>

text \<open>
  \<^verbatim>\<open>copy.deepcopy(template_cfg)\<close>: every text block is copied to a fresh cell of the heap,
  a block that the template reaches twice being copied once.
\<close>

fun copy_blocks :: "(ref \<times> ref) list \<Rightarrow> (string \<times> ref) list \<Rightarrow> heap \<Rightarrow> (string \<times> ref) list \<times> heap" where
  "copy_blocks memo [] h = ([], h)"
| "copy_blocks memo ((key, r) # bs) h =
     (case map_of memo r of
        Some r' \<Rightarrow> (let (bs', h') = copy_blocks memo bs h in ((key, r') # bs', h'))
      | None \<Rightarrow>
          (let r' = next_ref h;
               h1 = h\<lparr>cells := (cells h)(r' := cells h r), next_ref := Suc r'\<rparr>;
               (bs', h') = copy_blocks ((r, r') # memo) bs h1
           in ((key, r') # bs', h')))"

definition deepcopy :: "template_cfg \<Rightarrow> template_cfg io" where
  "deepcopy cfg w =
     (let (bs, h) = copy_blocks [] (text_blocks cfg) (heap w)
      in (Inr (cfg\<lparr>text_blocks := bs\<rparr>), w\<lparr>heap := h\<rparr>))"

text \<open>
  \<^verbatim>\<open>
      if font_scale != 1.0:
          for block in cfg.get("text_blocks", {}).values():
              if "size" in block:
                  block["size"] = max(1, int(round(float(block["size"]) * font_scale)))
  \<close>
\<close>

definition scaled_size :: "int \<Rightarrow> rat \<Rightarrow> int" where
  "scaled_size sz font_scale = max 1 (rne (float_mul (float_of_int sz) font_scale))"

definition scale_block :: "rat \<Rightarrow> ref \<Rightarrow> heap \<Rightarrow> heap" where
  "scale_block font_scale r h =
     (case rt_size (cells h r) of
        None \<Rightarrow> h
      | Some sz \<Rightarrow> h\<lparr>cells := (cells h)(r := (cells h r)\<lparr>rt_size := Some (scaled_size sz font_scale)\<rparr>)\<rparr>)"

fun scale_blocks :: "rat \<Rightarrow> ref list \<Rightarrow> heap \<Rightarrow> heap" where
  "scale_blocks font_scale [] h = h"
| "scale_blocks font_scale (r # rs) h = scale_blocks font_scale rs (scale_block font_scale r h)"

definition scale_text_sizes :: "rat \<Rightarrow> template_cfg \<Rightarrow> unit io" where
  "scale_text_sizes font_scale cfg w =
     (Inr (), if font_scale \<noteq> 1
              then w\<lparr>heap := scale_blocks font_scale (map snd (text_blocks cfg)) (heap w)\<rparr>
              else w)"

definition read_text_blocks :: "template_cfg \<Rightarrow> (string \<times> text_block) list io" where
  "read_text_blocks cfg w = (parse_text_blocks (heap w) (text_blocks cfg), w)"

text \<open>\<^verbatim>\<open>photo_path.suffix.lower() in {".jpg", ".jpeg"}\<close>.\<close>

definition py_lower :: "char \<Rightarrow> char" where
  "py_lower c = (let n = code c in
     if (65 \<le> n \<and> n \<le> 90) \<or> (192 \<le> n \<and> n \<le> 222 \<and> n \<noteq> 215) then char_of (n + 32) else c)"

fun split_on :: "char \<Rightarrow> string \<Rightarrow> string \<Rightarrow> string list" where
  "split_on sep cur [] = [cur]"
| "split_on sep cur (c # cs) = (if c = sep then cur # split_on sep [] cs else split_on sep (cur @ [c]) cs)"

definition path_name :: "string \<Rightarrow> string" where
  "path_name p = (let parts = filter (\<lambda>s. s \<noteq> [] \<and> s \<noteq> ''.'') (split_on CHR ''/'' [] p)
                  in if parts = [] then [] else last parts)"

definition suffix :: "string \<Rightarrow> string" where
  "suffix p = (let name = path_name p; ext = takeWhile (\<lambda>c. c \<noteq> CHR ''.'') (rev name)
               in if length ext = length name \<or> ext = [] \<or> Suc (length ext) = length name then []
                  else CHR ''.'' # rev ext)"

definition is_jpg :: "string \<Rightarrow> bool" where
  "is_jpg p = (let s = map py_lower (suffix p) in s = ''.jpg'' \<or> s = ''.jpeg'')"

text \<open>
  \<^verbatim>\<open>
      last_index = 0
      for idx, photo_path in enumerate(photos[: len(photo_boxes)]):
          last_index = idx
          if not photo_path.exists():
              print(f"Photo not found: {photo_path}, skipping.")
              continue
          img = Image.open(photo_path)
          paste_photo(
              base,
              img,
              photo_boxes[idx],
              auto_color=auto_color,
              remove_bg=remove_bg_jpg and photo_path.suffix.lower() in {".jpg", ".jpeg"},
              bg_color=bg_rgb,
              scale=photo_scale,
          )
  \<close>
  The loop runs over the enumerated list and returns the last value of \<^verbatim>\<open>last_index\<close>.
\<close>

definition place_photo ::
  "lib \<Rightarrow> photo_box list \<Rightarrow> bool \<Rightarrow> bool \<Rightarrow> (int \<times> int \<times> int) \<Rightarrow> rat \<Rightarrow> nat \<Rightarrow> string \<Rightarrow> unit io" where
  "place_photo lib boxes autocolor remove_bg_jpg bg_rgb photo_scale idx photo_path =
     bind_io (path_exists photo_path) (\<lambda>ex.
       if \<not> ex then print_line (''Photo not found: '' @ photo_path @ '', skipping.'')
       else bind_io (image_open photo_path) (\<lambda>img.
            paste_photo lib img (boxes ! idx) autocolor (remove_bg_jpg \<and> is_jpg photo_path)
              (Some bg_rgb) photo_scale))"

fun photo_loop ::
  "lib \<Rightarrow> photo_box list \<Rightarrow> bool \<Rightarrow> bool \<Rightarrow> (int \<times> int \<times> int) \<Rightarrow> rat \<Rightarrow> (nat \<times> string) list \<Rightarrow> nat \<Rightarrow> nat io" where
  "photo_loop lib boxes autocolor remove_bg_jpg bg_rgb photo_scale [] last_index = return_io last_index"
| "photo_loop lib boxes autocolor remove_bg_jpg bg_rgb photo_scale ((idx, photo_path) # rest) last_index =
     bind_io (place_photo lib boxes autocolor remove_bg_jpg bg_rgb photo_scale idx photo_path)
       (\<lambda>_. photo_loop lib boxes autocolor remove_bg_jpg bg_rgb photo_scale rest idx)"

text \<open>\<^verbatim>\<open>base.save(out_path)\<close>.\<close>

definition save :: "lib \<Rightarrow> string \<Rightarrow> unit io" where
  "save lib out_path w =
     (case save_error lib out_path (base w) of
        Some e \<Rightarrow> (Inl e, w)
      | None \<Rightarrow> (Inr (), w\<lparr>files := (files w)(out_path \<mapsto>
                                 ImageFile (canvas_width (base w)) (canvas_height (base w))),
                           saves := saves w @ [(out_path, base w)]\<rparr>))"

text \<open>
  \<^verbatim>\<open>
  def process_job(job, template_cfg, output_dir, auto_color, dry_run,
                  font_scale=1.0, remove_bg_jpg=False, photo_scale=PHOTO_SCALE) -> Path:
      photo_paths = job.get("photos") or []
      if isinstance(photo_paths, str):
          photo_paths = [photo_paths]
      photos = [Path(p) for p in photo_paths]

      cfg = copy.deepcopy(template_cfg)
      if font_scale != 1.0:
          ...
      base = create_base_canvas(cfg["canvas"]).convert("RGBA")
      bg_rgb = hex_to_rgb(cfg["canvas"].get("background_color", DEFAULT_BG_COLOR))
      photo_boxes = parse_photo_boxes(cfg.get("photo_boxes", []))
      text_blocks = parse_text_blocks(cfg.get("text_blocks", {}))
      overlays = parse_overlays(cfg.get("overlays", []))

      if photos and not photo_boxes:
          raise ValueError("Template does not define any photo boxes.")

      if len(photos) > len(photo_boxes):
          print(
              f"Warning: {len(photos)} photos provided but only {len(photo_boxes)} boxes. Extra photos ignored."
          )

      for overlay in overlays:
          if overlay.placement == "before_photos":
              paste_overlay(base, overlay)

      substitutions = {
          "recipient_name": job.get("recipient_name", ""),
          "giver_name": job.get("giver_name", ""),
          "message": job.get("message", ""),
          "project_name": job.get("project_name", ""),
      }
      last_index = 0
      for idx, photo_path in enumerate(photos[: len(photo_boxes)]):
          ...
      for overlay in overlays:
          if overlay.placement == "after_photos":
              paste_overlay(base, overlay)

      for block in text_blocks.values():
          draw_text(base, block, substitutions=substitutions)

      for overlay in overlays:
          if overlay.placement == "top":
              paste_overlay(base, overlay)

      out_name = job.get("output_name") or f"{substitutions['recipient_name'] or 'card'}_{last_index}.png"
      out_path = output_dir / f"{sanitize_filename(out_name)}.png"
      if not dry_run:
          base.save(out_path)
      return out_path
  \<close>
\<close>

definition job_photos :: "job \<Rightarrow> string list" where
  "job_photos j = (case photos j of
       NoPhotos \<Rightarrow> []
     | OnePhoto s \<Rightarrow> (if s = [] then [] else [s])
     | PhotoList ps \<Rightarrow> ps)"

definition no_boxes_error :: error where
  "no_boxes_error = ValueError ''Template does not define any photo boxes.''"

definition excess_warning :: "nat \<Rightarrow> nat \<Rightarrow> string" where
  "excess_warning n k = ''Warning: '' @ str_nat n @ '' photos provided but only '' @ str_nat k
     @ '' boxes. Extra photos ignored.''"

definition overlay_pass :: "lib \<Rightarrow> string \<Rightarrow> overlay list \<Rightarrow> unit io" where
  "overlay_pass lib phase ovs =
     for_each (\<lambda>ov. if placement ov = phase then paste_overlay lib ov else return_io ()) ovs"

definition job_substitutions :: "job \<Rightarrow> (string \<times> string) list" where
  "job_substitutions j =
     [(''recipient_name'', get_default [] (recipient_name j)),
      (''giver_name'', get_default [] (giver_name j)),
      (''message'', get_default [] (message j)),
      (''project_name'', get_default [] (project_name j))]"

definition out_name :: "job \<Rightarrow> nat \<Rightarrow> string" where
  "out_name j last_index =
     (let given = get_default [] (output_name j);
          recipient = get_default [] (recipient_name j)
      in if given \<noteq> [] then given
         else (if recipient \<noteq> [] then recipient else ''card'') @ ''_'' @ str_nat last_index @ ''.png'')"

definition out_file :: "job \<Rightarrow> nat \<Rightarrow> string" where
  "out_file j last_index = sanitize_filename (out_name j last_index) @ ''.png''"

definition path_join :: "string \<Rightarrow> string \<Rightarrow> string" where
  "path_join dir name = dir @ ''/'' @ name"

text \<open>
  The model of \<^verbatim>\<open>process_job\<close> is cut in three: \<open>prepare\<close> is the part up to
  \<^verbatim>\<open>parse_overlays\<close> (the copy of the template, the canvas and the parsed template),
  \<open>compose_card\<close> adds the check of the boxes and the paint phases and returns
  \<^verbatim>\<open>last_index\<close>, and \<open>process_job\<close> adds the output path and the save.
\<close>

definition prepare ::
  "lib \<Rightarrow> template_cfg \<Rightarrow> rat \<Rightarrow>
     ((int \<times> int \<times> int) \<times> photo_box list \<times> (string \<times> text_block) list \<times> overlay list) io" where
  "prepare lib tcfg font_scale =
     bind_io (deepcopy tcfg) (\<lambda>cfg.
     bind_io (scale_text_sizes font_scale cfg) (\<lambda>_.
     bind_io (lift_io (required ''canvas'' (canvas_cfg cfg))) (\<lambda>cc.
     bind_io (create_base_canvas lib cc) (\<lambda>c.
     bind_io (set_base c) (\<lambda>_.
     bind_io (lift_io (hex_to_rgb (get_default (VStr DEFAULT_BG_COLOR) (background_color cc)))) (\<lambda>bg_rgb.
     bind_io (lift_io (parse_photo_boxes (photo_boxes cfg))) (\<lambda>boxes.
     bind_io (read_text_blocks cfg) (\<lambda>blocks.
     bind_io (lift_io (parse_overlays (overlays cfg))) (\<lambda>ovs.
     return_io (bg_rgb, boxes, blocks, ovs))))))))))"

definition check_boxes :: "string list \<Rightarrow> photo_box list \<Rightarrow> unit io" where
  "check_boxes photo_list boxes =
     bind_io (if photo_list \<noteq> [] \<and> boxes = [] then raise_io no_boxes_error else return_io ()) (\<lambda>_.
     if length boxes < length photo_list
     then print_line (excess_warning (length photo_list) (length boxes))
     else return_io ())"

definition paint_phases ::
  "lib \<Rightarrow> job \<Rightarrow> string list \<Rightarrow> bool \<Rightarrow> bool \<Rightarrow> rat \<Rightarrow>
     (int \<times> int \<times> int) \<Rightarrow> photo_box list \<Rightarrow> (string \<times> text_block) list \<Rightarrow> overlay list \<Rightarrow> nat io" where
  "paint_phases lib j photo_list autocolor remove_bg_jpg photo_scale bg_rgb boxes blocks ovs =
     bind_io (overlay_pass lib ''before_photos'' ovs) (\<lambda>_.
     bind_io (photo_loop lib boxes autocolor remove_bg_jpg bg_rgb photo_scale
                (enumerate 0 (take (length boxes) photo_list)) 0) (\<lambda>last_index.
     bind_io (overlay_pass lib ''after_photos'' ovs) (\<lambda>_.
     bind_io (for_each (\<lambda>(key, block). draw_text lib block (job_substitutions j)) blocks) (\<lambda>_.
     bind_io (overlay_pass lib ''top'' ovs) (\<lambda>_.
     return_io last_index)))))"

definition compose_card ::
  "lib \<Rightarrow> job \<Rightarrow> template_cfg \<Rightarrow> bool \<Rightarrow> rat \<Rightarrow> bool \<Rightarrow> rat \<Rightarrow> nat io" where
  "compose_card lib j tcfg autocolor font_scale remove_bg_jpg photo_scale =
     bind_io (prepare lib tcfg font_scale) (\<lambda>(bg_rgb, boxes, blocks, ovs).
     bind_io (check_boxes (job_photos j) boxes) (\<lambda>_.
     paint_phases lib j (job_photos j) autocolor remove_bg_jpg photo_scale bg_rgb boxes blocks ovs))"

definition process_job ::
  "lib \<Rightarrow> job \<Rightarrow> template_cfg \<Rightarrow> string \<Rightarrow> bool \<Rightarrow> bool \<Rightarrow> rat \<Rightarrow> bool \<Rightarrow> rat \<Rightarrow> string io" where
  "process_job lib j tcfg output_dir autocolor dry_run font_scale remove_bg_jpg photo_scale =
     bind_io (compose_card lib j tcfg autocolor font_scale remove_bg_jpg photo_scale) (\<lambda>last_index.
     let out_path = path_join output_dir (out_file j last_index) in
     bind_io (if \<not> dry_run then save lib out_path else return_io ()) (\<lambda>_.
     return_io out_path))"

section \<open>Sample inputs\<close>

text \<open>
  Libraries that never raise and format a text to itself, an empty world, a template
  with one photo box, one text block and one overlay of each placement, and a job with
  two photos.
\<close>

definition quiet_lib :: lib where
  "quiet_lib = \<lparr>str_format = (\<lambda>t s. Inr t), image_new_error = (\<lambda>w h c. None),
     load_error = (\<lambda>i. None), rembg_available = False, rembg_error = (\<lambda>i. None),
     truetype_ok = (\<lambda>p s. True), paint_error = (\<lambda>c p. None), save_error = (\<lambda>p c. None)\<rparr>"

definition blank_block :: raw_text_block where
  "blank_block = \<lparr>rt_text = None, rt_x = None, rt_y = None, rt_font_path = None,
     rt_size = None, rt_color = None, rt_align = None, rt_max_width = None\<rparr>"

definition title_block :: raw_text_block where
  "title_block = blank_block\<lparr>rt_text := Some ''Thanks'', rt_x := Some 10, rt_y := Some 20,
     rt_size := Some 40\<rparr>"

definition blank_canvas :: canvas where
  "blank_canvas = \<lparr>canvas_width = 0, canvas_height = 0, surface = Solid VNone, painted = []\<rparr>"

definition sample_world :: world where
  "sample_world = \<lparr>
     files = [''a.jpg'' \<mapsto> ImageFile 1100 1000, ''b.png'' \<mapsto> ImageFile 40 30,
              ''under.png'' \<mapsto> ImageFile 8 8, ''over.png'' \<mapsto> ImageFile 8 8,
              ''top.png'' \<mapsto> ImageFile 8 8],
     log = [],
     heap = \<lparr>cells = (\<lambda>r. blank_block)(0 := title_block), next_ref = 1\<rparr>,
     base = blank_canvas,
     saves = []\<rparr>"

definition plain_canvas_cfg :: canvas_cfg where
  "plain_canvas_cfg = \<lparr>cv_width = Some 1600, cv_height = Some 900,
     background_color = None, template_path = None\<rparr>"

definition sample_box :: raw_box where
  "sample_box = \<lparr>rb_x = Some 100, rb_y = Some 50, rb_width = Some 550, rb_height = Some 500,
     rb_border_radius = None\<rparr>"

definition sample_overlay :: "string \<Rightarrow> string \<Rightarrow> raw_overlay" where
  "sample_overlay p phase = \<lparr>ro_path = Some p, ro_x = Some 0, ro_y = Some 0,
     ro_width = None, ro_height = None, ro_placement = Some phase\<rparr>"

definition sample_template :: template_cfg where
  "sample_template = \<lparr>canvas_cfg = Some plain_canvas_cfg, photo_boxes = [sample_box],
     text_blocks = [(''title'', 0)],
     overlays = [sample_overlay ''top.png'' ''top'', sample_overlay ''over.png'' ''after_photos'',
                 sample_overlay ''under.png'' ''before_photos'']\<rparr>"

definition no_box_template :: template_cfg where
  "no_box_template = sample_template\<lparr>photo_boxes := []\<rparr>"

definition sample_job :: job where
  "sample_job = \<lparr>photos = PhotoList [''a.jpg'', ''b.png''], recipient_name = Some ''Alice'',
     giver_name = Some ''Bob'', message = None, project_name = None, output_name = None\<rparr>"

text \<open>
  A caller that runs \<^verbatim>\<open>process_job\<close> on one template for a list of jobs, each with its
  own font scale, and goes on after an exception.
\<close>

fun process_jobs ::
  "lib \<Rightarrow> template_cfg \<Rightarrow> string \<Rightarrow> bool \<Rightarrow> bool \<Rightarrow> bool \<Rightarrow> rat \<Rightarrow> (job \<times> rat) list \<Rightarrow> world \<Rightarrow> world" where
  "process_jobs lib tcfg output_dir autocolor dry_run remove_bg_jpg photo_scale [] w = w"
| "process_jobs lib tcfg output_dir autocolor dry_run remove_bg_jpg photo_scale ((j, font_scale) # calls) w =
     process_jobs lib tcfg output_dir autocolor dry_run remove_bg_jpg photo_scale calls
       (snd (process_job lib j tcfg output_dir autocolor dry_run font_scale remove_bg_jpg photo_scale w))"

section \<open>Notions for the proofs\<close>

text \<open>
  \<open>keeps obs f\<close>: the computation \<open>f\<close> leaves the part \<open>obs\<close> of the world as it was,
  whether it returns or raises. \<open>detached obs\<close>: the part \<open>obs\<close> does not depend on the
  printed lines and the canvas.
\<close>

definition keeps :: "(world \<Rightarrow> 'b) \<Rightarrow> 'a io \<Rightarrow> bool" where
  "keeps obs f = (\<forall>w. obs (snd (f w)) = obs w)"

definition detached :: "(world \<Rightarrow> 'b) \<Rightarrow> bool" where
  "detached obs = (\<forall>w l c. obs (w\<lparr>log := l\<rparr>) = obs w \<and> obs (w\<lparr>base := c\<rparr>) = obs w)"

definition heap_free :: "(world \<Rightarrow> 'b) \<Rightarrow> bool" where
  "heap_free obs = (\<forall>w h. obs (w\<lparr>heap := h\<rparr>) = obs w)"

text \<open>
  \<open>carried h h1\<close>: the heap \<open>h1\<close> holds every cell that was allocated in \<open>h\<close>, unchanged.
\<close>

definition carried :: "heap \<Rightarrow> heap \<Rightarrow> bool" where
  "carried h h1 = (next_ref h \<le> next_ref h1 \<and> (\<forall>r. r < next_ref h \<longrightarrow> cells h1 r = cells h r))"

section \<open>Properties of sanitize\_filename\<close>














section \<open>Properties of hex\_to\_rgb\<close>

lemma isspace_hash: "\<not> isspace CHR ''#''"
  by (simp add: isspace_def code_def)

lemma hexval_not_space: "hexval c = Some d \<Longrightarrow> \<not> isspace c"
  unfolding hexval_def isspace_def Let_def by (simp split: if_splits)

lemma strip_ends: "s \<noteq> [] \<Longrightarrow> \<not> isspace (hd s) \<Longrightarrow> \<not> isspace (last s) \<Longrightarrow> strip s = s"
proof -
  assume a: "s \<noteq> []" "\<not> isspace (hd s)" "\<not> isspace (last s)"
  have 1: "dropWhile isspace s = s" using a by (cases s) auto
  have 2: "dropWhile isspace (rev s) = rev s" using a by (cases "rev s") (auto simp: last_rev [symmetric] hd_rev)
  show ?thesis by (simp add: strip_def 1 2)
qed

text \<open>
  The three-digit form parses to the same triple as the six-digit form with every
  digit doubled.
\<close>

lemma hex_to_rgb_short_long:
  assumes "hexval a = Some x" "hexval b = Some y" "hexval c = Some z"
  shows "hex_to_rgb (VStr [CHR ''#'', a, b, c]) = hex_to_rgb (VStr [CHR ''#'', a, a, b, b, c, c])"
    and "hex_to_rgb (VStr [CHR ''#'', a, b, c]) = Inr (17 * x, 17 * y, 17 * z)"
proof -
  have c: "\<not> isspace c" using assms(3) by (rule hexval_not_space)
  have 1: "strip [CHR ''#'', a, b, c] = [CHR ''#'', a, b, c]"
    using c isspace_hash by (intro strip_ends) simp_all
  have 2: "strip [CHR ''#'', a, a, b, b, c, c] = [CHR ''#'', a, a, b, b, c, c]"
    using c isspace_hash by (intro strip_ends) simp_all
  show "hex_to_rgb (VStr [CHR ''#'', a, b, c]) = hex_to_rgb (VStr [CHR ''#'', a, a, b, b, c, c])"
    by (simp add: hex_to_rgb_def 1 2)
  have ns: "\<And>u v. hexval u = Some v \<Longrightarrow> py_int16 [u, u] = Inr (17 * v)"
  proof -
    fix u v assume h: "hexval u = Some v"
    have u: "\<not> int_space u" "u \<noteq> CHR ''+''" "u \<noteq> CHR ''-''" "u \<noteq> CHR ''_''"
      using h unfolding hexval_def int_space_def Let_def code_def by (auto split: if_splits)
    have p: "drop_prefix16 [u, u] = [u, u]"
      by (auto simp: drop_prefix16_def)
    show "py_int16 [u, u] = Inr (17 * v)"
      using u h by (simp add: py_int16_def drop_sign_def p)
  qed
  show "hex_to_rgb (VStr [CHR ''#'', a, b, c]) = Inr (17 * x, 17 * y, 17 * z)"
    using assms by (simp add: hex_to_rgb_def 1 ns bind_err_def)
qed

text \<open>
  C6. The claim says that every string that is not a well-formed colour gives the
  default triple. At \<^verbatim>\<open>"#ggg"\<close> the source reaches \<^verbatim>\<open>int("gg", 16)\<close>, which raises
  \<^verbatim>\<open>ValueError\<close>: no default is returned.
\<close>

theorem hex_to_rgb_bad_digit_raises:
  "hex_to_rgb (VStr ''#ggg'') = Inl (ValueError ''invalid literal for int() with base 16'')"
  by (simp add: hex_to_rgb_def strip_def isspace_def code_def py_int16_def drop_sign_def
      drop_prefix16_def int_space_def hexval_def bind_err_def invalid_literal_def)

section \<open>Properties of fit\_image\<close>

text \<open>Whenever \<open>fit_image\<close> returns, the result has exactly the size of the box.\<close>

lemma fit_image_size:
  "fit_image img w h = Inr f \<Longrightarrow> image_width (out f) = w \<and> image_height (out f) = h"
  unfolding fit_image_def bind_err_def pil_crop_def Let_def
  by (auto split: sum.splits if_splits prod.splits)

text \<open>
  C1. The claim says that the resized image fully covers the box before it is cropped.
  For a source of 1100 x 1000 pixels and a box of 550 x 500, the same aspect ratio,
  \<^verbatim>\<open>img_ratio\<close> is the float 1.1 and \<^verbatim>\<open>550 / 1.1\<close> is the float
  499.99999999999994, which \<^verbatim>\<open>int\<close> truncates to 499: the image is resized to
  550 x 499, one row short of the box, and the crop box starts at row -1. The result has
  the size of the box, with a blank row at the top.
\<close>

theorem fit_image_short_by_one_row:
  "fit_image \<lparr>image_width = 1100, image_height = 1000, filename = ''photo.png''\<rparr> 550 500 =
     Inr \<lparr>new_width = 550, new_height = 499, crop_left = 0, crop_top = - 1,
          out = \<lparr>image_width = 550, image_height = 500, filename = ''photo.png''\<rparr>\<rparr>
   \<and> \<not> covers \<lparr>new_width = 550, new_height = 499, crop_left = 0, crop_top = - 1,
          out = \<lparr>image_width = 550, image_height = 500, filename = ''photo.png''\<rparr>\<rparr>"
  by code_simp

section \<open>Properties of the compositing mask\<close>

lemma clamp_inside: "0 \<le> v \<Longrightarrow> v < n \<Longrightarrow> clamp n v = v"
  by (simp add: clamp_def)

lemma min_filter3_le:
  assumes "inside m x y"
  shows "px (min_filter3 m) x y \<le> px m x y"
proof -
  have cx: "clamp (mask_width m) x = x" and cy: "clamp (mask_height m) y = y"
    using assms by (simp_all add: inside_def clamp_inside)
  obtain rest where w: "window3 = (0, 0) # rest"
    by (simp add: window3_def)
  have "px (min_filter3 m) x y = min (px m x y)
      (foldr min (map (\<lambda>(dx, dy). px m (clamp (mask_width m) (x + dx)) (clamp (mask_height m) (y + dy))) rest) 255)"
    by (simp add: min_filter3_def w cx cy)
  then show ?thesis by simp
qed

lemma min_filter3_size:
  "mask_width (min_filter3 m) = mask_width m" "mask_height (min_filter3 m) = mask_height m"
  by (simp_all add: min_filter3_def)

lemma muldiv_le:
  fixes a b :: "8 word"
  shows "(of_nat (unat a * unat b div 255) :: 8 word) \<le> a"
    and "(of_nat (unat a * unat b div 255) :: 8 word) \<le> b"
proof -
  have a: "unat a \<le> 255" and b: "unat b \<le> 255"
    using unsigned_less [of a, where ?'a = nat] unsigned_less [of b, where ?'a = nat] by simp_all
  have 1: "unat a * unat b div 255 \<le> unat a"
  proof -
    have "unat a * unat b \<le> unat a * 255" using b by simp
    then have "unat a * unat b div 255 \<le> unat a * 255 div 255" by (rule div_le_mono)
    then show ?thesis by simp
  qed
  have 2: "unat a * unat b div 255 \<le> unat b"
  proof -
    have "unat a * unat b \<le> 255 * unat b" using a by simp
    then have "unat a * unat b div 255 \<le> 255 * unat b div 255" by (rule div_le_mono)
    then show ?thesis by simp
  qed
  have u: "unat (of_nat (unat a * unat b div 255) :: 8 word) = unat a * unat b div 255"
    using 1 a by (simp add: unat_of_nat)
  show "(of_nat (unat a * unat b div 255) :: 8 word) \<le> a" using 1 u by (simp add: word_le_nat_alt)
  show "(of_nat (unat a * unat b div 255) :: 8 word) \<le> b" using 2 u by (simp add: word_le_nat_alt)
qed

lemma multiply_le:
  "px (multiply a b) x y \<le> px a x y" "px (multiply a b) x y \<le> px b x y"
  by (simp_all add: multiply_def muldiv_le)

lemma combined_mask_le_alpha:
  assumes "inside photo_alpha x y"
  shows "px (combined_mask rr photo_alpha remove_bg bg_color radius scale) x y \<le> px photo_alpha x y"
proof -
  define bm where "bm = (if remove_bg \<and> bg_color \<noteq> None then min_filter3 photo_alpha else photo_alpha)"
  have b: "px bm x y \<le> px photo_alpha x y"
    using min_filter3_le [OF assms] by (simp add: bm_def)
  have "combined_mask rr photo_alpha remove_bg bg_color radius scale =
      (if 0 < radius then multiply bm (corner_mask rr photo_alpha radius scale) else bm)"
    by (simp add: combined_mask_def bm_def)
  then have "px (combined_mask rr photo_alpha remove_bg bg_color radius scale) x y \<le> px bm x y"
    by (simp add: multiply_le(1))
  then show ?thesis using b by (rule order_trans)
qed

lemma combined_mask_le_eroded:
  "remove_bg \<Longrightarrow> bg_color \<noteq> None \<Longrightarrow>
     px (combined_mask rr photo_alpha remove_bg bg_color radius scale) x y
       \<le> px (min_filter3 photo_alpha) x y"
  by (simp add: combined_mask_def Let_def multiply_le)

lemma combined_mask_le_corner:
  "0 < radius \<Longrightarrow>
     px (combined_mask rr photo_alpha remove_bg bg_color radius scale) x y
       \<le> px (corner_mask rr photo_alpha radius scale) x y"
  by (simp add: combined_mask_def Let_def multiply_le)

text \<open>
  C5, as the claim states it, fails when background removal is on: the Gaussian blur
  is applied after the masks are combined, and a blur spreads opacity across an edge.
  With the sample blur, the final mask of the hard-edged alpha channel is 85 at the
  pixel where the alpha channel is 0.
\<close>

theorem paste_photo_mask_blur_counterexample:
  "px (paste_photo_mask no_corner box_blur3 edge_alpha True None 0 (13 / 10)) 0 0 = 85
   \<and> px edge_alpha 0 0 = 0
   \<and> inside edge_alpha 0 0"
  by (simp add: paste_photo_mask_def combined_mask_def box_blur3_def edge_alpha_def
      clamp_def inside_def)

text \<open>
  C5, amended. The mask combined from the alpha channel, the eroded alpha channel and
  the rounded-corner mask (the mask before the final blur) is, at every pixel of the
  image, no more opaque than each of these inputs that takes part; the final mask is
  this combined mask when background removal is off, and its Gaussian blur when it is on.
\<close>

theorem paste_photo_mask_combined:
  "paste_photo_mask rr blur photo_alpha remove_bg bg_color radius scale =
     (if remove_bg
      then blur (3 / 2) (combined_mask rr photo_alpha remove_bg bg_color radius scale)
      else combined_mask rr photo_alpha remove_bg bg_color radius scale)
   \<and> (inside photo_alpha x y \<longrightarrow>
        px (combined_mask rr photo_alpha remove_bg bg_color radius scale) x y
          \<le> px photo_alpha x y)
   \<and> (remove_bg \<and> bg_color \<noteq> None \<longrightarrow>
        px (combined_mask rr photo_alpha remove_bg bg_color radius scale) x y
          \<le> px (min_filter3 photo_alpha) x y)
   \<and> (0 < radius \<longrightarrow>
        px (combined_mask rr photo_alpha remove_bg bg_color radius scale) x y
          \<le> px (corner_mask rr photo_alpha radius scale) x y)"
  using combined_mask_le_alpha combined_mask_le_eroded combined_mask_le_corner
  by (simp add: paste_photo_mask_def)

theorem paste_photo_mask_combined_witness:
  "paste_photo_mask no_corner box_blur3 edge_alpha True (Some (245, 246, 250)) 4 (13 / 10) =
     box_blur3 (3 / 2) (combined_mask no_corner edge_alpha True (Some (245, 246, 250)) 4 (13 / 10))
   \<and> inside edge_alpha 1 0
   \<and> px (combined_mask no_corner edge_alpha True (Some (245, 246, 250)) 4 (13 / 10)) 1 0
        \<le> px edge_alpha 1 0
   \<and> px (combined_mask no_corner edge_alpha True (Some (245, 246, 250)) 4 (13 / 10)) 1 0
        \<le> px (min_filter3 edge_alpha) 1 0
   \<and> (0::int) < 4
   \<and> px (combined_mask no_corner edge_alpha True (Some (245, 246, 250)) 4 (13 / 10)) 1 0
        \<le> px (corner_mask no_corner edge_alpha 4 (13 / 10)) 1 0"
  using paste_photo_mask_combined
    [of no_corner box_blur3 edge_alpha True "Some (245, 246, 250)" 4 "13 / 10" 1 0]
  by (simp add: inside_def edge_alpha_def)

section \<open>What a job leaves untouched\<close>

lemma detached_fields: "detached files" "detached saves" "detached heap"
  by (simp_all add: detached_def)

lemma keepsD: "keeps obs f \<Longrightarrow> f w = (r, w') \<Longrightarrow> obs w' = obs w"
  by (auto simp: keeps_def dest: spec [where x = w])

lemma keeps_return: "keeps obs (return_io x)"
  by (simp add: keeps_def return_io_def)

lemma keeps_raise: "keeps obs (raise_io e)"
  by (simp add: keeps_def raise_io_def)

lemma keeps_lift: "keeps obs (lift_io r)"
  by (simp add: keeps_def lift_io_def)

lemma keeps_exists: "keeps obs (path_exists p)"
  by (simp add: keeps_def path_exists_def)

lemma keeps_open: "keeps obs (image_open p)"
  by (simp add: keeps_def image_open_def split: option.splits file_content.splits)

lemma keeps_print: "detached obs \<Longrightarrow> keeps obs (print_line s)"
  by (simp add: keeps_def print_line_def detached_def)

lemma keeps_set_base: "detached obs \<Longrightarrow> keeps obs (set_base c)"
  by (simp add: keeps_def set_base_def detached_def)

lemma keeps_paint: "detached obs \<Longrightarrow> keeps obs (paint_on_base lib p)"
  by (simp add: keeps_def paint_on_base_def detached_def split: option.splits)

lemma keeps_bind: "keeps obs f \<Longrightarrow> (\<And>x. keeps obs (g x)) \<Longrightarrow> keeps obs (bind_io f g)"
proof -
  assume f: "keeps obs f" and g: "\<And>x. keeps obs (g x)"
  show ?thesis
    unfolding keeps_def
  proof
    fix w
    obtain r w1 where fw: "f w = (r, w1)" by (cases "f w")
    have 1: "obs w1 = obs w" using f fw by (rule keepsD)
    show "obs (snd (bind_io f g w)) = obs w"
    proof (cases r)
      case (Inl e)
      then show ?thesis using fw 1 by (simp add: bind_io_def)
    next
      case (Inr x)
      obtain r2 w2 where gw: "g x w1 = (r2, w2)" by (cases "g x w1")
      have "obs w2 = obs w1" using g gw by (rule keepsD)
      then show ?thesis using fw Inr gw 1 by (simp add: bind_io_def)
    qed
  qed
qed

lemma keeps_if: "keeps obs f \<Longrightarrow> keeps obs g \<Longrightarrow> keeps obs (if b then f else g)"
  by simp

lemma keeps_for_each: "(\<And>x. keeps obs (f x)) \<Longrightarrow> keeps obs (for_each f xs)"
  by (induction xs) (simp_all add: keeps_return keeps_bind)

lemma keeps_load: "keeps obs (image_load lib img)"
  by (simp add: image_load_def keeps_raise keeps_return split: option.splits)

lemma keeps_image_new: "keeps obs (image_new lib wd ht c)"
  by (simp add: image_new_def keeps_raise keeps_return split: option.splits)

lemma keeps_create_base_canvas: "detached obs \<Longrightarrow> keeps obs (create_base_canvas lib cc)"
  unfolding create_base_canvas_def Let_def
  by (intro keeps_bind keeps_image_new)
     (auto intro!: keeps_bind keeps_return keeps_exists keeps_open keeps_load keeps_lift keeps_print
           split: option.splits)

lemma keeps_paste_overlay: "detached obs \<Longrightarrow> keeps obs (paste_overlay lib ov)"
  unfolding paste_overlay_def Let_def
  by (intro keeps_bind keeps_exists)
     (auto intro!: keeps_bind keeps_open keeps_load keeps_lift keeps_print keeps_paint)

lemma keeps_overlay_pass: "detached obs \<Longrightarrow> keeps obs (overlay_pass lib phase ovs)"
  unfolding overlay_pass_def
  by (intro keeps_for_each) (simp add: keeps_paste_overlay keeps_return)

lemma keeps_try_rembg: "detached obs \<Longrightarrow> keeps obs (try_rembg lib img rb)"
  unfolding try_rembg_def
  by (auto intro!: keeps_bind keeps_return keeps_print split: option.splits)

lemma keeps_paste_photo: "detached obs \<Longrightarrow> keeps obs (paste_photo lib photo box ac rb bg sc)"
  unfolding paste_photo_def Let_def
  by (intro keeps_bind keeps_load keeps_try_rembg keeps_lift keeps_paint)

lemma keeps_place_photo: "detached obs \<Longrightarrow> keeps obs (place_photo lib boxes ac rb bg sc idx p)"
  unfolding place_photo_def
  by (intro keeps_bind keeps_exists)
     (auto intro!: keeps_bind keeps_open keeps_print keeps_paste_photo)

lemma keeps_photo_loop: "detached obs \<Longrightarrow> keeps obs (photo_loop lib boxes ac rb bg sc ps li)"
  by (induction ps arbitrary: li) (auto intro!: keeps_bind keeps_return keeps_place_photo)

lemma keeps_load_font: "detached obs \<Longrightarrow> keeps obs (load_font lib fp sz)"
  unfolding load_font_def
  by (auto intro!: keeps_bind keeps_return keeps_print split: option.splits)

lemma keeps_draw_text: "detached obs \<Longrightarrow> keeps obs (draw_text lib block subs)"
  unfolding draw_text_def
  by (intro keeps_bind keeps_lift keeps_load_font keeps_paint)

lemma keeps_check_boxes: "detached obs \<Longrightarrow> keeps obs (check_boxes ps boxes)"
  unfolding check_boxes_def
  by (auto intro!: keeps_bind keeps_return keeps_raise keeps_print)

lemma keeps_paint_phases:
  "detached obs \<Longrightarrow> keeps obs (paint_phases lib j ps ac rb sc bg boxes blocks ovs)"
  unfolding paint_phases_def
  by (intro keeps_bind keeps_overlay_pass keeps_photo_loop keeps_for_each keeps_return)
     (auto intro!: keeps_draw_text)

lemma free_fields: "heap_free files" "heap_free saves"
  by (simp_all add: heap_free_def)

lemma keeps_deepcopy: "heap_free obs \<Longrightarrow> keeps obs (deepcopy cfg)"
  by (simp add: keeps_def deepcopy_def heap_free_def split: prod.splits)

lemma keeps_scale_text_sizes: "heap_free obs \<Longrightarrow> keeps obs (scale_text_sizes fs cfg)"
  by (simp add: keeps_def scale_text_sizes_def heap_free_def)

lemma keeps_read_text_blocks: "keeps obs (read_text_blocks cfg)"
  by (simp add: keeps_def read_text_blocks_def)

lemma keeps_prepare: "detached obs \<Longrightarrow> heap_free obs \<Longrightarrow> keeps obs (prepare lib tcfg fs)"
  unfolding prepare_def
  by (intro keeps_bind keeps_deepcopy keeps_scale_text_sizes keeps_lift keeps_create_base_canvas
      keeps_set_base keeps_read_text_blocks keeps_return)

lemma keeps_compose_card:
  "detached obs \<Longrightarrow> heap_free obs \<Longrightarrow> keeps obs (compose_card lib j tcfg ac fs rb sc)"
  unfolding compose_card_def
  by (intro keeps_bind keeps_prepare)
     (auto intro!: keeps_bind keeps_check_boxes keeps_paint_phases)

lemma bind_io_Inr:
  "bind_io f g w = (Inr y, w2) \<Longrightarrow> \<exists>x w1. f w = (Inr x, w1) \<and> g x w1 = (Inr y, w2)"
  by (auto simp: bind_io_def split: prod.splits sum.splits)

lemma bind_io_Inl: "f w = (Inl e, w1) \<Longrightarrow> bind_io f g w = (Inl e, w1)"
  by (simp add: bind_io_def)

lemma bind_io_step: "f w = (Inr x, w1) \<Longrightarrow> bind_io f g w = g x w1"
  by (simp add: bind_io_def)

lemma deepcopy_result:
  "deepcopy tcfg w = (r, w1) \<Longrightarrow>
     \<exists>bs. r = Inr (tcfg\<lparr>text_blocks := bs\<rparr>)"
  by (auto simp: deepcopy_def split: prod.splits)

lemma prepare_boxes:
  assumes "prepare lib tcfg fs w = (Inr (bg, boxes, blocks, ovs), w1)"
  shows "parse_photo_boxes (photo_boxes tcfg) = Inr boxes"
    and "parse_overlays (overlays tcfg) = Inr ovs"
proof -
  from assms obtain cfg wa where d: "deepcopy tcfg w = (Inr cfg, wa)"
    and rest: "bind_io (scale_text_sizes fs cfg) (\<lambda>_.
     bind_io (lift_io (required ''canvas'' (canvas_cfg cfg))) (\<lambda>cc.
     bind_io (create_base_canvas lib cc) (\<lambda>c.
     bind_io (set_base c) (\<lambda>_.
     bind_io (lift_io (hex_to_rgb (get_default (VStr DEFAULT_BG_COLOR) (background_color cc)))) (\<lambda>bg_rgb.
     bind_io (lift_io (parse_photo_boxes (photo_boxes cfg))) (\<lambda>boxes.
     bind_io (read_text_blocks cfg) (\<lambda>blocks.
     bind_io (lift_io (parse_overlays (overlays cfg))) (\<lambda>ovs.
     return_io (bg_rgb, boxes, blocks, ovs))))))))) wa = (Inr (bg, boxes, blocks, ovs), w1)"
    unfolding prepare_def by (blast dest: bind_io_Inr)
  from d obtain bs where cfg: "cfg = tcfg\<lparr>text_blocks := bs\<rparr>"
    using deepcopy_result by blast
  from rest obtain w2 cc w3 c w4 w5 bg' w6 boxes' w7 blocks' w8 ovs' w9 where
    "lift_io (parse_photo_boxes (photo_boxes cfg)) w6 = (Inr boxes', w7)"
    "lift_io (parse_overlays (overlays cfg)) w8 = (Inr ovs', w9)"
    "return_io (bg', boxes', blocks', ovs') w9 = (Inr (bg, boxes, blocks, ovs), w1)"
    by (fastforce dest!: bind_io_Inr)
  then show "parse_photo_boxes (photo_boxes tcfg) = Inr boxes"
    and "parse_overlays (overlays tcfg) = Inr ovs"
    using cfg by (simp_all add: lift_io_def return_io_def)
qed

lemma check_boxes_empty:
  "ps \<noteq> [] \<Longrightarrow> check_boxes ps [] w = (Inl no_boxes_error, w)"
  by (simp add: check_boxes_def bind_io_def raise_io_def)

lemma parse_photo_boxes_Nil: "parse_photo_boxes [] = Inr []"
  by (simp add: parse_photo_boxes_def)

text \<open>
  A job with photos on a template without boxes: the call raises, in a world with the
  files and the saves it started with.
\<close>

lemma compose_card_no_boxes:
  assumes "job_photos j \<noteq> []" and "photo_boxes tcfg = []"
  shows "\<exists>e w1. compose_card lib j tcfg ac fs rb sc w = (Inl e, w1)
           \<and> e = (case fst (prepare lib tcfg fs w) of Inl e0 \<Rightarrow> e0 | Inr x \<Rightarrow> no_boxes_error)"
proof -
  obtain r w1 where p: "prepare lib tcfg fs w = (r, w1)" by (cases "prepare lib tcfg fs w")
  show ?thesis
  proof (cases r)
    case (Inl e0)
    then have "compose_card lib j tcfg ac fs rb sc w = (Inl e0, w1)"
      using p by (simp add: compose_card_def bind_io_Inl)
    then show ?thesis using p Inl by simp
  next
    case (Inr x)
    obtain bg boxes blocks ovs where x: "x = (bg, boxes, blocks, ovs)" by (cases x)
    have "parse_photo_boxes (photo_boxes tcfg) = Inr boxes"
      using p Inr x prepare_boxes(1) by blast
    then have b: "boxes = []" using assms(2) by (simp add: parse_photo_boxes_Nil)
    have "compose_card lib j tcfg ac fs rb sc w = (Inl no_boxes_error, w1)"
      using p Inr x b check_boxes_empty [OF assms(1)]
      by (simp add: compose_card_def bind_io_def)
    then show ?thesis using p Inr by simp
  qed
qed

lemma process_job_keeps_on_error:
  assumes "compose_card lib j tcfg ac fs rb sc w = (Inl e, w1)"
  shows "process_job lib j tcfg dir ac dry fs rb sc w = (Inl e, w1)"
    and "files w1 = files w" and "saves w1 = saves w"
proof -
  show "process_job lib j tcfg dir ac dry fs rb sc w = (Inl e, w1)"
    using assms by (simp add: process_job_def bind_io_Inl)
  show "files w1 = files w"
    using keeps_compose_card [OF detached_fields(1) free_fields(1)] assms by (rule keepsD)
  show "saves w1 = saves w"
    using keeps_compose_card [OF detached_fields(2) free_fields(2)] assms by (rule keepsD)
qed

text \<open>
  C2. If the job has photos and the template defines no photo box, \<open>process_job\<close>
  raises, and the files and the calls of \<^verbatim>\<open>save\<close> are as before the call: no output
  file is created. The exception is the \<^verbatim>\<open>ValueError\<close> of the check of the boxes,
  unless the preparation of the template has raised before that check.
\<close>

theorem process_job_no_boxes:
  assumes "job_photos j \<noteq> []" and "photo_boxes tcfg = []"
  shows "\<exists>e w1. process_job lib j tcfg dir ac dry fs rb sc w = (Inl e, w1)
           \<and> files w1 = files w \<and> saves w1 = saves w
           \<and> e = (case fst (prepare lib tcfg fs w) of Inl e0 \<Rightarrow> e0 | Inr x \<Rightarrow> no_boxes_error)"
proof -
  obtain e w1 where c: "compose_card lib j tcfg ac fs rb sc w = (Inl e, w1)"
    and e: "e = (case fst (prepare lib tcfg fs w) of Inl e0 \<Rightarrow> e0 | Inr x \<Rightarrow> no_boxes_error)"
    using compose_card_no_boxes [OF assms] by blast
  show ?thesis using process_job_keeps_on_error [OF c] e by blast
qed

lemma prepare_no_box_sample:
  "fst (prepare quiet_lib no_box_template 1 sample_world) =
     Inr (default_rgb, [],
       [(''title'', \<lparr>tb_text = ''Thanks'', tb_x = 10, tb_y = 20, font_path = None, tb_size = 40,
          tb_color = DEFAULT_TEXT_COLOR, tb_align = ''left'', max_width = None\<rparr>)],
       [\<lparr>ov_path = ''top.png'', ov_x = 0, ov_y = 0, ov_width = None, ov_height = None,
          placement = ''top''\<rparr>,
        \<lparr>ov_path = ''over.png'', ov_x = 0, ov_y = 0, ov_width = None, ov_height = None,
          placement = ''after_photos''\<rparr>,
        \<lparr>ov_path = ''under.png'', ov_x = 0, ov_y = 0, ov_width = None, ov_height = None,
          placement = ''before_photos''\<rparr>])"
  by code_simp

theorem process_job_no_boxes_witness:
  "job_photos sample_job \<noteq> [] \<and> photo_boxes no_box_template = []
   \<and> (\<exists>w1. process_job quiet_lib sample_job no_box_template ''out'' True False 1 False (13 / 10)
              sample_world = (Inl no_boxes_error, w1)
            \<and> files w1 = files sample_world \<and> saves w1 = saves sample_world)"
proof -
  have 1: "job_photos sample_job \<noteq> []" by (simp add: job_photos_def sample_job_def)
  have 2: "photo_boxes no_box_template = []" by (simp add: no_box_template_def)
  show ?thesis
    using process_job_no_boxes [OF 1 2, of quiet_lib "''out''" True False 1 False "13 / 10" sample_world] 1 2
    by (simp add: prepare_no_box_sample)
qed

section \<open>The template is not changed\<close>

lemma carried_refl: "carried h h"
  by (simp add: carried_def)

lemma carried_trans: "carried h h1 \<Longrightarrow> carried h1 h2 \<Longrightarrow> carried h h2"
  by (auto simp: carried_def)

lemma copy_blocks_frame:
  "copy_blocks memo bs h = (bs', h') \<Longrightarrow> n0 \<le> next_ref h \<Longrightarrow> list_all (\<lambda>(r, r'). n0 \<le> r') memo \<Longrightarrow>
     next_ref h \<le> next_ref h' \<and> (\<forall>r. r < n0 \<longrightarrow> cells h' r = cells h r)
     \<and> list_all (\<lambda>(key, r'). n0 \<le> r') bs'"
proof (induction bs arbitrary: memo h bs' h')
  case Nil
  then show ?case by simp
next
  case (Cons a bs)
  obtain key r where a: "a = (key, r)" by (cases a)
  show ?case
  proof (cases "map_of memo r")
    case (Some r')
    obtain bs1 h1 where rec: "copy_blocks memo bs h = (bs1, h1)" by (cases "copy_blocks memo bs h")
    have res: "bs' = (key, r') # bs1" "h' = h1"
      using Cons.prems(1) a Some rec by simp_all
    have "(r, r') \<in> set memo" using Some by (rule map_of_SomeD)
    then have r': "n0 \<le> r'" using Cons.prems(3) by (auto simp: list_all_iff)
    show ?thesis using Cons.IH [OF rec Cons.prems(2) Cons.prems(3)] res r' by simp
  next
    case None
    define r' where "r' = next_ref h"
    define h1 where "h1 = h\<lparr>cells := (cells h)(r' := cells h r), next_ref := Suc r'\<rparr>"
    obtain bs1 h2 where rec: "copy_blocks ((r, r') # memo) bs h1 = (bs1, h2)"
      by (cases "copy_blocks ((r, r') # memo) bs h1")
    have res: "bs' = (key, r') # bs1" "h' = h2"
      using Cons.prems(1) a None rec by (simp_all add: r'_def h1_def Let_def)
    have r': "n0 \<le> r'" using Cons.prems(2) by (simp add: r'_def)
    have 1: "n0 \<le> next_ref h1" using r' by (simp add: h1_def)
    have 2: "list_all (\<lambda>(r, r'). n0 \<le> r') ((r, r') # memo)" using r' Cons.prems(3) by simp
    have ih: "next_ref h1 \<le> next_ref h2 \<and> (\<forall>r. r < n0 \<longrightarrow> cells h2 r = cells h1 r)
        \<and> list_all (\<lambda>(key, r'). n0 \<le> r') bs1"
      using rec 1 2 by (rule Cons.IH)
    have 3: "\<forall>x. x < n0 \<longrightarrow> cells h1 x = cells h x" using r' by (simp add: h1_def)
    have 4: "next_ref h \<le> next_ref h1" by (simp add: h1_def r'_def)
    show ?thesis using ih res r' 3 4 by auto
  qed
qed

lemma scale_block_frame:
  "n0 \<le> r \<Longrightarrow> next_ref (scale_block fs r h) = next_ref h
     \<and> (\<forall>x. x < n0 \<longrightarrow> cells (scale_block fs r h) x = cells h x)"
  by (simp add: scale_block_def split: option.splits)

lemma scale_blocks_frame:
  "list_all (\<lambda>r. n0 \<le> r) rs \<Longrightarrow> next_ref (scale_blocks fs rs h) = next_ref h
     \<and> (\<forall>x. x < n0 \<longrightarrow> cells (scale_blocks fs rs h) x = cells h x)"
proof (induction rs arbitrary: h)
  case Nil
  then show ?case by simp
next
  case (Cons r rs)
  have "n0 \<le> r" "list_all (\<lambda>r. n0 \<le> r) rs" using Cons.prems by simp_all
  then show ?case using Cons.IH [of "scale_block fs r h"] scale_block_frame [of n0 r fs h] by simp
qed

lemma deepcopy_scale_carried:
  assumes "deepcopy tcfg w = (Inr cfg, wa)" and "scale_text_sizes fs cfg wa = (u, wb)"
  shows "carried (heap w) (heap wb)"
proof -
  obtain bs h where c: "copy_blocks [] (text_blocks tcfg) (heap w) = (bs, h)"
    by (cases "copy_blocks [] (text_blocks tcfg) (heap w)")
  have cfg: "text_blocks cfg = bs" and wa: "heap wa = h"
    using assms(1) c by (auto simp: deepcopy_def)
  have f: "next_ref (heap w) \<le> next_ref h \<and> (\<forall>r. r < next_ref (heap w) \<longrightarrow> cells h r = cells (heap w) r)
      \<and> list_all (\<lambda>(key, r'). next_ref (heap w) \<le> r') bs"
    using c by (rule copy_blocks_frame) simp_all
  then have l: "list_all (\<lambda>r. next_ref (heap w) \<le> r) (map snd bs)"
    by (auto simp: list_all_iff)
  have "heap wb = (if fs \<noteq> 1 then scale_blocks fs (map snd bs) h else h)"
    using assms(2) cfg wa by (auto simp: scale_text_sizes_def)
  then show ?thesis using f scale_blocks_frame [OF l, of fs h] by (auto simp: carried_def)
qed

lemma deepcopy_returns: "\<exists>cfg wa. deepcopy tcfg w = (Inr cfg, wa)"
  by (simp add: deepcopy_def split: prod.splits)

lemma scale_text_sizes_returns: "\<exists>wb. scale_text_sizes fs cfg wa = (Inr (), wb)"
  by (simp add: scale_text_sizes_def)

lemma prepare_carried:
  assumes "prepare lib tcfg fs w = (r, w1)"
  shows "carried (heap w) (heap w1)"
proof -
  obtain cfg wa where d: "deepcopy tcfg w = (Inr cfg, wa)" using deepcopy_returns by blast
  obtain wb where s: "scale_text_sizes fs cfg wa = (Inr (), wb)" using scale_text_sizes_returns by blast
  define rest where "rest = bind_io (lift_io (required ''canvas'' (canvas_cfg cfg))) (\<lambda>cc.
     bind_io (create_base_canvas lib cc) (\<lambda>c.
     bind_io (set_base c) (\<lambda>_.
     bind_io (lift_io (hex_to_rgb (get_default (VStr DEFAULT_BG_COLOR) (background_color cc)))) (\<lambda>bg_rgb.
     bind_io (lift_io (parse_photo_boxes (photo_boxes cfg))) (\<lambda>boxes.
     bind_io (read_text_blocks cfg) (\<lambda>blocks.
     bind_io (lift_io (parse_overlays (overlays cfg))) (\<lambda>ovs.
     return_io (bg_rgb, boxes, blocks, ovs))))))))"
  have k: "keeps heap rest"
    unfolding rest_def
    by (intro keeps_bind keeps_lift keeps_create_base_canvas keeps_set_base keeps_read_text_blocks
        keeps_return detached_fields)
  have "prepare lib tcfg fs w = rest wb"
    unfolding prepare_def rest_def by (simp add: bind_io_def d s)
  then have "rest wb = (r, w1)" using assms by simp
  then have "heap w1 = heap wb" using k keepsD by blast
  then show ?thesis using deepcopy_scale_carried [OF d s] by simp
qed

lemma compose_card_carried:
  assumes "compose_card lib j tcfg ac fs rb sc w = (r, w1)"
  shows "carried (heap w) (heap w1)"
proof -
  obtain r0 w0 where p: "prepare lib tcfg fs w = (r0, w0)" by (cases "prepare lib tcfg fs w")
  have c0: "carried (heap w) (heap w0)" using p by (rule prepare_carried)
  show ?thesis
  proof (cases r0)
    case (Inl e)
    then have "compose_card lib j tcfg ac fs rb sc w = (Inl e, w0)"
      using p by (simp add: compose_card_def bind_io_Inl)
    then show ?thesis using assms c0 by simp
  next
    case (Inr x)
    define rest where "rest = (case x of (bg_rgb, boxes, blocks, ovs) \<Rightarrow>
      bind_io (check_boxes (job_photos j) boxes) (\<lambda>_.
      paint_phases lib j (job_photos j) ac rb sc bg_rgb boxes blocks ovs))"
    have k: "keeps heap rest"
      unfolding rest_def
      by (auto split: prod.splits intro!: keeps_bind keeps_check_boxes keeps_paint_phases detached_fields)
    have "compose_card lib j tcfg ac fs rb sc w = rest w0"
      using p Inr by (simp add: compose_card_def rest_def bind_io_def split: prod.splits)
    then have "rest w0 = (r, w1)" using assms by simp
    then have "heap w1 = heap w0" using k keepsD by blast
    then show ?thesis using c0 by simp
  qed
qed

lemma process_job_carried:
  "carried (heap w) (heap (snd (process_job lib j tcfg dir ac dry fs rb sc w)))"
proof -
  obtain r0 w0 where c: "compose_card lib j tcfg ac fs rb sc w = (r0, w0)"
    by (cases "compose_card lib j tcfg ac fs rb sc w")
  have "heap (snd (process_job lib j tcfg dir ac dry fs rb sc w)) = heap w0"
    using c by (simp add: process_job_def bind_io_def save_def return_io_def Let_def
        split: sum.splits option.splits)
  then show ?thesis using compose_card_carried [OF c] by simp
qed

lemma process_jobs_carried:
  "carried (heap w) (heap (process_jobs lib tcfg dir ac dry rb sc calls w))"
proof (induction calls arbitrary: w)
  case Nil
  then show ?case by (simp add: carried_refl)
next
  case (Cons a calls)
  obtain j fs where a: "a = (j, fs)" by (cases a)
  show ?case
    using process_job_carried [of w lib j tcfg dir ac dry fs rb sc]
      Cons.IH [of "snd (process_job lib j tcfg dir ac dry fs rb sc w)"]
    by (simp add: a) (rule carried_trans)
qed

lemma scaled_size_min: "1 \<le> scaled_size sz fs"
  by (simp add: scaled_size_def)

text \<open>
  C7. Whatever jobs and font scales \<open>process_job\<close> is called with, one call after the
  other on the same template, every text block that was in the heap before the calls
  (those of the template among them) is the same after them; a scaled size, written
  to the copy, is at least 1.
\<close>

theorem process_jobs_keep_template:
  assumes "ref < next_ref (heap w)"
  shows "cells (heap (process_jobs lib tcfg dir ac dry rb sc calls w)) ref = cells (heap w) ref
         \<and> 1 \<le> scaled_size sz fs"
  using assms process_jobs_carried [of w lib tcfg dir ac dry rb sc calls] scaled_size_min
  by (simp add: carried_def)

theorem process_jobs_keep_template_witness:
  "0 < next_ref (heap sample_world)
   \<and> cells (heap (process_jobs quiet_lib sample_template ''out'' False False False (13 / 10)
        [(sample_job, 2), (sample_job, 1 / 2)] sample_world)) 0 = title_block
   \<and> 1 \<le> scaled_size 40 (1 / 2)"
  using process_jobs_keep_template [of 0 sample_world quiet_lib sample_template "''out''" False False
      False "13 / 10" "[(sample_job, 2), (sample_job, 1 / 2)]" 40 "1 / 2"]
  by (simp add: sample_world_def)

section \<open>Dry runs and the save\<close>


end
